theory Spec2Isabelle
  imports Main "HOL-Library.Word"
begin

section \<open>JavaScript values used by the oracle\<close>

text \<open>
  The oracle is TypeScript on Node. Its strings are modelled as \<open>string\<close>, with every
  character below 256 standing for the code unit of that number. Thrown values are
  \<open>Error\<close> objects: a name, the optional \<open>code\<close> property that ethers sets on its errors
  (the balance readers test it against \<open>BAD_DATA\<close>), and a message. A \<open>bigint\<close> is an
  \<open>int\<close>; a byte of a \<open>Buffer\<close> or \<open>Uint8Array\<close> is an \<open>8 word\<close>.
\<close>

datatype js_error = JsError (err_name: string) (err_code: "string option") (err_message: string)

type_synonym 'a result = "js_error + 'a"

type_synonym byte = "8 word"

definition new_Error :: "string \<Rightarrow> js_error" where
  "new_Error msg = JsError ''Error'' None msg"

text \<open>\<open>`${error}`\<close> in a template literal: \<open>Error.prototype.toString\<close>.\<close>

definition error_toString :: "js_error \<Rightarrow> string" where
  "error_toString e =
     (if err_name e = [] then err_message e
      else if err_message e = [] then err_name e
      else err_name e @ '': '' @ err_message e)"

subsection \<open>Decimal strings and \<open>bigint\<close>\<close>

text \<open>The digit characters of \<open>toString\<close> and of \<open>hexlify\<close>, by value.\<close>

definition digit_char :: "nat \<Rightarrow> char" where
  "digit_char d = ''0123456789abcdef'' ! d"

function dec_digits :: "nat \<Rightarrow> string" where
  "dec_digits n = (if n < 10 then [digit_char n] else dec_digits (n div 10) @ [digit_char (n mod 10)])"
  by pat_completeness auto
termination
  by (relation "measure id") auto

declare dec_digits.simps [simp del]

text \<open>\<open>bigint.prototype.toString()\<close>.\<close>

definition bigint_toString :: "int \<Rightarrow> string" where
  "bigint_toString i = (if i < 0 then CHR ''-'' # dec_digits (nat (- i)) else dec_digits (nat i))"

text \<open>
  \<open>Number.prototype.toString()\<close> and \<open>`${n}`\<close> for a non-negative integer below
  \<open>10^21\<close> (chain ids, lengths, block numbers): its decimal digits.
\<close>

definition number_toString :: "nat \<Rightarrow> string" where
  "number_toString n = dec_digits n"

text \<open>
  The value of a character as a digit: \<open>0\<close> to \<open>9\<close>, then the letters of either case
  from 10 on.
\<close>

definition digit_of :: "char \<Rightarrow> nat option" where
  "digit_of c =
     (let k = (of_char c :: nat) in
      if 48 \<le> k \<and> k \<le> 57 then Some (k - 48)
      else if 97 \<le> k \<and> k \<le> 122 then Some (k - 87)
      else if 65 \<le> k \<and> k \<le> 90 then Some (k - 55)
      else None)"

definition is_radix_digit :: "nat \<Rightarrow> char \<Rightarrow> bool" where
  "is_radix_digit R c = (case digit_of c of None \<Rightarrow> False | Some d \<Rightarrow> d < R)"

definition radix_value :: "nat \<Rightarrow> string \<Rightarrow> nat" where
  "radix_value R s = foldl (\<lambda>acc c. acc * R + the (digit_of c)) 0 s"

definition radix_digits :: "nat \<Rightarrow> string \<Rightarrow> nat option" where
  "radix_digits R s = (if s \<noteq> [] \<and> list_all (is_radix_digit R) s then Some (radix_value R s) else None)"

text \<open>
  The white space that \<open>BigInt\<close> and \<open>parseInt\<close> strip, among the code units below 256:
  TAB, LF, VT, FF, CR, SP and NBSP.
\<close>

definition isStrWhiteSpaceChar :: "char \<Rightarrow> bool" where
  "isStrWhiteSpaceChar c = ((of_char c :: nat) \<in> {9, 10, 11, 12, 13, 32, 160})"

definition trimStart :: "string \<Rightarrow> string" where
  "trimStart s = dropWhile isStrWhiteSpaceChar s"

definition trim :: "string \<Rightarrow> string" where
  "trim s = rev (trimStart (rev (trimStart s)))"

text \<open>
  \<open>StringToBigInt\<close> of ECMAScript: white space around an optional literal; the empty
  literal is 0; a decimal literal may carry a sign; a literal with the prefix \<open>0x\<close>, \<open>0o\<close>
  or \<open>0b\<close> (either case) may not. Anything else is no \<open>bigint\<close>.
\<close>

definition StringToBigInt :: "string \<Rightarrow> int option" where
  "StringToBigInt str =
     (let s = trim str in
      if s = [] then Some 0
      else if hd s = CHR ''+'' then map_option int (radix_digits 10 (tl s))
      else if hd s = CHR ''-'' then map_option (\<lambda>n. - int n) (radix_digits 10 (tl s))
      else if take 2 s = ''0x'' \<or> take 2 s = ''0X'' then map_option int (radix_digits 16 (drop 2 s))
      else if take 2 s = ''0o'' \<or> take 2 s = ''0O'' then map_option int (radix_digits 8 (drop 2 s))
      else if take 2 s = ''0b'' \<or> take 2 s = ''0B'' then map_option int (radix_digits 2 (drop 2 s))
      else map_option int (radix_digits 10 s))"

text \<open>\<open>BigInt(s)\<close> on a string: a \<open>SyntaxError\<close> where the string is no \<open>bigint\<close>.\<close>

definition BigInt :: "string \<Rightarrow> int result" where
  "BigInt s =
     (case StringToBigInt s of
        None \<Rightarrow> Inl (JsError ''SyntaxError'' None (''Cannot convert '' @ s @ '' to a BigInt''))
      | Some i \<Rightarrow> Inr i)"

subsection \<open>\<open>Number\<close> and \<open>parseInt\<close>\<close>

text \<open>
  A \<open>Number\<close> is an IEEE 754 double. The values that \<open>parseInt\<close> can return are the
  integers a double represents exactly, \<open>NaN\<close> and the two infinities; \<open>-0\<close> is
  \<open>Num 0\<close> here. A double has 53 significant bits: an integer with more is rounded
  to the nearest double, ties to the even significand, and from \<open>2^1024\<close> on the
  result is infinite.
\<close>

datatype js_number = NaN | Num int | PosInf | NegInf

function bit_length :: "nat \<Rightarrow> nat" where
  "bit_length n = (if n = 0 then 0 else Suc (bit_length (n div 2)))"
  by pat_completeness auto
termination
  by (relation "measure id") auto

declare bit_length.simps [simp del]

definition roundToDouble :: "nat \<Rightarrow> nat option" where
  "roundToDouble n =
     (if n < 2 ^ 53 then Some n
      else
        (let e = bit_length n - 53;
             q = n div 2 ^ e;
             r = n mod 2 ^ e;
             half = 2 ^ (e - 1);
             q' = (if r < half then q else if half < r then q + 1 else if even q then q else q + 1);
             v = q' * 2 ^ e
         in if v < 2 ^ 1024 then Some v else None))"

text \<open>
  \<open>parseInt(str)\<close> with no radix: leading white space and one sign are dropped, the
  prefix \<open>0x\<close> selects radix 16, the longest run of digits is read and the rest of the
  string is ignored; no digit gives \<open>NaN\<close>. (ECMAScript lets an engine replace the
  decimal digits after the 20th by zeros; this model reads them all, as V8 does.)
\<close>

definition parseInt :: "string \<Rightarrow> js_number" where
  "parseInt str =
     (let s0 = trimStart str;
          neg = (s0 \<noteq> [] \<and> hd s0 = CHR ''-'');
          s1 = (if s0 \<noteq> [] \<and> (hd s0 = CHR ''+'' \<or> hd s0 = CHR ''-'') then tl s0 else s0);
          hex = (take 2 s1 = ''0x'' \<or> take 2 s1 = ''0X'');
          R = (if hex then 16 else 10);
          s2 = (if hex then drop 2 s1 else s1);
          Z = takeWhile (is_radix_digit R) s2
      in if Z = [] then NaN
         else
           (case roundToDouble (radix_value R Z) of
              None \<Rightarrow> if neg then NegInf else PosInf
            | Some v \<Rightarrow> Num (if neg then - int v else int v)))"

subsection \<open>Strings and bytes\<close>

text \<open>\<open>String.prototype.toLowerCase\<close> on code units below 256.\<close>

definition toLowerCase_char :: "char \<Rightarrow> char" where
  "toLowerCase_char c =
     (case map_of (zip ''ABCDEFGHIJKLMNOPQRSTUVWXYZ'' ''abcdefghijklmnopqrstuvwxyz'') c of
        Some l \<Rightarrow> l
      | None \<Rightarrow>
          (let k = (of_char c :: nat)
           in if 192 \<le> k \<and> k \<le> 222 \<and> k \<noteq> 215 then char_of (k + 32) else c))"

definition toLowerCase :: "string \<Rightarrow> string" where
  "toLowerCase s = map toLowerCase_char s"

text \<open>\<open>buf.toString('hex')\<close>, and \<open>ethers.hexlify\<close>, which puts \<open>0x\<close> before it.\<close>

definition hex_byte :: "byte \<Rightarrow> string" where
  "hex_byte b = [digit_char (unat b div 16), digit_char (unat b mod 16)]"

definition toString_hex :: "byte list \<Rightarrow> string" where
  "toString_hex bs = concat (map hex_byte bs)"

definition hexlify :: "byte list \<Rightarrow> string" where
  "hexlify bs = ''0x'' @ toString_hex bs"

text \<open>
  \<open>buf.slice(start)\<close> and \<open>buf.subarray(start, end)\<close>: a negative index counts from
  the end, and both are clamped to the buffer.
\<close>

definition clamp_index :: "nat \<Rightarrow> int \<Rightarrow> nat" where
  "clamp_index len i = (if i < 0 then nat (max (int len + i) 0) else min (nat i) len)"

definition subarray :: "int \<Rightarrow> int \<Rightarrow> 'a list \<Rightarrow> 'a list" where
  "subarray start end' bs =
     (let a = clamp_index (length bs) start; b = clamp_index (length bs) end'
      in take (b - a) (drop a bs))"

definition slice_from :: "int \<Rightarrow> 'a list \<Rightarrow> 'a list" where
  "slice_from start bs = subarray start (int (length bs)) bs"

text \<open>
  A value is falsy in \<open>!x\<close> and \<open>x || y\<close> when it is undefined or the empty string.
\<close>

definition falsy :: "string option \<Rightarrow> bool" where
  "falsy v = (v = None \<or> v = Some [])"

type_synonym env = "string \<Rightarrow> string option"

subsection \<open>Reading a property of an object literal\<close>

text \<open>
  \<open>obj[key]\<close> on an object literal whose own properties are strings gives the own
  property of that name and otherwise what the object inherits from
  \<open>Object.prototype\<close> under it: one of the built-in functions, and under \<open>__proto__\<close>
  the prototype itself. \<open>Inherited k\<close> is the inherited value of the name \<open>k\<close>; it is
  not a string, and it is truthy.
\<close>

datatype js_value = JsString string | Inherited string

definition Object_prototype_names :: "string list" where
  "Object_prototype_names =
     [''constructor'', ''__defineGetter__'', ''__defineSetter__'', ''hasOwnProperty'',
      ''__lookupGetter__'', ''__lookupSetter__'', ''isPrototypeOf'', ''propertyIsEnumerable'',
      ''toString'', ''valueOf'', ''__proto__'', ''toLocaleString'']"

definition get_property :: "(string \<times> string) list \<Rightarrow> string \<Rightarrow> js_value option" where
  "get_property obj key =
     (case map_of obj key of
        Some s \<Rightarrow> Some (JsString s)
      | None \<Rightarrow> if key \<in> set Object_prototype_names then Some (Inherited key) else None)"

definition truthy :: "js_value option \<Rightarrow> bool" where
  "truthy v = (v \<noteq> None \<and> v \<noteq> Some (JsString []))"

section \<open>Chain configuration (\<open>config/chains.ts\<close>)\<close>

record ChainConfig =
  chainId :: nat
  name :: string
  rpcUrl :: string
  aavePoolAddress :: string
  usdcAddress :: string
  vaultAddress :: "string option"

text \<open>\<open>process.env.X || d\<close>.\<close>

definition env_or :: "env \<Rightarrow> string \<Rightarrow> string \<Rightarrow> string" where
  "env_or env x d = (if falsy (env x) then d else the (env x))"

definition SUPPORTED_CHAINS :: "env \<Rightarrow> (string \<times> ChainConfig) list" where
  "SUPPORTED_CHAINS env =
     [(''ethereumSepolia'',
       \<lparr>chainId = 11155111, name = ''Ethereum Sepolia'',
        rpcUrl = env_or env ''ETHEREUM_SEPOLIA_RPC'' ''https://ethereum-sepolia-rpc.publicnode.com'',
        aavePoolAddress = ''0x6Ae43d3271ff6888e7Fc43Fd7321a503ff738951'',
        usdcAddress = ''0xaA8E23Fb1079EA71e0a56F48a2aA51851D8433D0'',
        vaultAddress = None\<rparr>),
      (''baseSepolia'',
       \<lparr>chainId = 84532, name = ''Base Sepolia'',
        rpcUrl = env_or env ''BASE_SEPOLIA_RPC'' ''https://sepolia.base.org'',
        aavePoolAddress = ''0x6a9d64f93db660eacb2b6e9424792c630cda87d8'',
        usdcAddress = ''0x036CbD53842c5426634e7929541eC2318f3dCF7e'',
        vaultAddress = Some (env_or env ''BASE_VAULT_ADDRESS'' ''0x773035EABdA16B5416B26E12156483C6B6F56451'')\<rparr>),
      (''arbitrumSepolia'',
       \<lparr>chainId = 421614, name = ''Arbitrum Sepolia'',
        rpcUrl = env_or env ''ARBITRUM_SEPOLIA_RPC'' ''https://sepolia-rollup.arbitrum.io/rpc'',
        aavePoolAddress = ''0xBfC91D59fdAA134A4ED45f7B584cAf96D7792Eff'',
        usdcAddress = ''0x75faf114eafb1BDbe2F0316DF893fd58CE46AA4d'',
        vaultAddress = Some (env_or env ''ARBITRUM_VAULT_ADDRESS'' ''0xE168d95f8d1B8EC167A63c8E696076EC8EE95337'')\<rparr>),
      (''optimismSepolia'',
       \<lparr>chainId = 11155420, name = ''Optimism Sepolia'',
        rpcUrl = env_or env ''OPTIMISM_SEPOLIA_RPC'' ''https://sepolia.optimism.io'',
        aavePoolAddress = ''0xb50201558B00496A145fE76f7424749556E326D8'',
        usdcAddress = ''0x5fd84259d66Cd46123540766Be93DFE6D43130D7'',
        vaultAddress = None\<rparr>)]"

text \<open>
  The three accessors read the module constant \<open>SUPPORTED_CHAINS\<close>. Here the constant is
  their first argument \<open>cfgs\<close>, so that a statement can range over every configuration;
  \<open>SUPPORTED_CHAINS env\<close> is the one the repository ships.
\<close>

definition getAllChains :: "(string \<times> ChainConfig) list \<Rightarrow> ChainConfig list" where
  "getAllChains cfgs = map snd cfgs"

definition getChainById :: "(string \<times> ChainConfig) list \<Rightarrow> nat \<Rightarrow> ChainConfig option" where
  "getChainById cfgs cid = find (\<lambda>chain. ChainConfig.chainId chain = cid) (map snd cfgs)"

record VaultRef =
  chainId :: nat
  vaultAddress :: string

definition getAllVaults :: "(string \<times> ChainConfig) list \<Rightarrow> VaultRef list" where
  "getAllVaults cfgs =
     map (\<lambda>chain. \<lparr>VaultRef.chainId = ChainConfig.chainId chain,
                     vaultAddress = the (ChainConfig.vaultAddress chain)\<rparr>)
       (filter (\<lambda>chain. \<not> falsy (ChainConfig.vaultAddress chain)) (map snd cfgs))"

section \<open>Balance records (\<open>src/types\<close>, as \<open>balanceFetcher.ts\<close> builds them)\<close>

record ChainBalance =
  chainId :: nat
  chainName :: string
  aTokenBalance :: string
  aTokenAddress :: string
  blockNumber :: nat
  timestamp :: nat

record VaultBalance =
  chainId :: nat
  chainName :: string
  vaultAddress :: string
  usdcBalance :: string
  aTokenBalance :: string
  blockNumber :: nat
  timestamp :: nat

text \<open>\<open>Omit<AggregatedBalances, 'agentAddress'>\<close>, the value \<open>aggregateBalances\<close> returns.\<close>

record AggregatedBalances =
  totalATokens :: string
  totalUSDC :: string
  totalValue :: string
  chainBalances :: "ChainBalance list"
  vaultBalances :: "VaultBalance list"
  timestamp :: nat

section \<open>The signing request (\<open>nearContractService.ts\<close>)\<close>

record CrossChainBalanceSnapshot =
  balance :: string
  nonce :: string
  deadline :: string
  assets :: string
  receiver :: string

text \<open>The object literal of lines 81 to 92: \<open>{ args: { ... }, callback_gas_tgas: 50 }\<close>.\<close>

record SnapshotDigestArgs =
  balance :: js_number
  chain_id :: nat
  verifying_contract :: string
  nonce :: js_number
  deadline :: js_number
  assets :: string
  receiver :: string

record SignCallArgs =
  args :: SnapshotDigestArgs
  callback_gas_tgas :: nat

record FunctionCallOptions =
  contractId :: string
  methodName :: string
  args :: SignCallArgs
  gas :: string
  attachedDeposit :: string

record TypedDataDomain =
  name :: string
  version :: string
  chainId :: nat
  verifyingContract :: string

record MpcSignatureResponse =
  signature :: string
  agentAddress :: string

text \<open>
  \<open>InMemoryKeyStore\<close>: the keys set so far, by network and account. A key pair is
  the string it was parsed from.
\<close>

type_synonym key_store = "((string \<times> string) \<times> string) list"

record NearContractService =
  nearContractId :: string
  nearAccountId :: string
  agentAddress :: string
  keyStore :: "key_store option"
  isInitialized :: bool

text \<open>A value that \<open>JSON.parse\<close> returns. A number stands for its integer part.\<close>

datatype json =
    JNull
  | JBool bool
  | JNumber int
  | JString string
  | JArray "json list"
  | JObject "(string \<times> json) list"

section \<open>The outside world\<close>

text \<open>
  Every call that leaves the process is recorded, in the order the code makes it, next
  to the state and the result. A call to a library whose answer a statement depends on
  (\<open>ethers.recoverAddress\<close>) is recorded too.
\<close>

datatype call =
    Call_getReserveData string string string
  | Call_balanceOf string string string
  | Call_getBlockNumber string
  | Call_totalAssets string string
  | Call_connect string
  | Call_account string
  | Call_functionCall FunctionCallOptions
  | Call_recoverAddress string string

text \<open>
  The chains and the NEAR network answer through \<open>world\<close>: the JSON-RPC provider of
  ethers by the RPC URL, the contract address and the arguments; near-api-js by node URL
  and account. \<open>functionCall\<close> returns \<open>result.status?.SuccessValue\<close>. \<open>Date_now\<close> is
  the clock in milliseconds. Two oracles settle what concurrency leaves open:
  \<open>first_rejection\<close> picks, among the errors of the branches of one \<open>Promise.all\<close> that
  fail (in branch order), the one that is rejected first, and \<open>cache_seen w i c\<close> is the
  token-address cache as branch \<open>i\<close> finds it when the fan-out started from \<open>c\<close>:
  branches that run at the same time may have written to it. The cache is a \<open>Map\<close>; it
  holds whatever value was stored, a string by its declared type. \<open>Contract_refused\<close> is
  the error with which \<open>new ethers.Contract\<close> refuses a target that is not an address.
\<close>

type_synonym cache = "string \<Rightarrow> js_value option"

record world =
  getReserveData :: "string \<Rightarrow> string \<Rightarrow> string \<Rightarrow> string result"
  balanceOf :: "string \<Rightarrow> string \<Rightarrow> string \<Rightarrow> int result"
  getBlockNumber :: "string \<Rightarrow> nat result"
  totalAssets :: "string \<Rightarrow> string \<Rightarrow> int result"
  Date_now :: nat
  first_rejection :: "js_error list \<Rightarrow> nat"
  cache_seen :: "nat \<Rightarrow> cache \<Rightarrow> cache"
  connect :: "string \<Rightarrow> key_store option \<Rightarrow> unit result"
  account :: "string \<Rightarrow> unit result"
  functionCall :: "string \<Rightarrow> string \<Rightarrow> key_store option \<Rightarrow> FunctionCallOptions \<Rightarrow> string option result"
  Contract_refused :: "js_value \<Rightarrow> js_error"

text \<open>
  The library functions the code calls and this development does not define:
  \<open>KeyPair.fromString\<close>; \<open>Buffer.from(x, 'base64').toString('utf8')\<close>; \<open>JSON.parse\<close>;
  the byte that \<open>Buffer.from(array)\<close> stores for an element that is not a number;
  \<open>ethers.TypedDataEncoder.hash\<close> for the one type \<open>CrossChainBalanceSnapshot\<close> of
  lines 165 to 173; \<open>ethers.recoverAddress\<close>.
\<close>

record libs =
  KeyPair_fromString :: "string option \<Rightarrow> string result"
  base64_utf8 :: "string \<Rightarrow> string"
  JSON_parse :: "string \<Rightarrow> json result"
  ToUint8_other :: "json \<Rightarrow> byte"
  TypedDataEncoder_hash :: "TypedDataDomain \<Rightarrow> CrossChainBalanceSnapshot \<Rightarrow> string result"
  recoverAddress :: "string \<Rightarrow> string \<Rightarrow> string result"

text \<open>
  An \<open>async\<close> function is a function of the state it may change to the calls it made,
  the state it leaves and either the error it threw or its value.
\<close>

type_synonym ('s, 'a) io = "'s \<Rightarrow> call list \<times> 's \<times> 'a result"

definition io_return :: "'a \<Rightarrow> ('s, 'a) io" where
  "io_return x = (\<lambda>s. ([], s, Inr x))"

definition io_throw :: "js_error \<Rightarrow> ('s, 'a) io" where
  "io_throw e = (\<lambda>s. ([], s, Inl e))"

text \<open>
  \<open>io_try m ok err\<close> is \<open>try { x = await m } catch (e) { return err(e) } return ok(x)\<close>:
  neither continuation runs inside the \<open>try\<close>.
\<close>

definition io_try ::
  "('s, 'a) io \<Rightarrow> ('a \<Rightarrow> ('s, 'b) io) \<Rightarrow> (js_error \<Rightarrow> ('s, 'b) io) \<Rightarrow> ('s, 'b) io" where
  "io_try m ok err =
     (\<lambda>s. case m s of
        (t, s', r) \<Rightarrow>
          (case (case r of Inr x \<Rightarrow> ok x s' | Inl e \<Rightarrow> err e s') of
             (t', s'', r') \<Rightarrow> (t @ t', s'', r')))"

definition io_bind :: "('s, 'a) io \<Rightarrow> ('a \<Rightarrow> ('s, 'b) io) \<Rightarrow> ('s, 'b) io" where
  "io_bind m f = io_try m f io_throw"

definition io_catch :: "('s, 'a) io \<Rightarrow> (js_error \<Rightarrow> ('s, 'a) io) \<Rightarrow> ('s, 'a) io" where
  "io_catch m h = io_try m io_return h"

definition io_call :: "call \<Rightarrow> 'a result \<Rightarrow> ('s, 'a) io" where
  "io_call c r = (\<lambda>s. ([c], s, r))"

definition io_lift :: "'a result \<Rightarrow> ('s, 'a) io" where
  "io_lift r = (\<lambda>s. ([], s, r))"

definition io_get :: "('s, 's) io" where
  "io_get = (\<lambda>s. ([], s, Inr s))"

definition io_modify :: "('s \<Rightarrow> 's) \<Rightarrow> ('s, unit) io" where
  "io_modify f = (\<lambda>s. ([], f s, Inr ()))"

text \<open>
  \<open>Promise.all(branches)\<close> over the token-address cache. Every branch is started; the
  value is the list of all values, in branch order, when no branch fails, and otherwise
  the error of the branch that is rejected first. The calls of the branches are listed
  branch after branch, and the cache ends with the entries every branch wrote.
\<close>

definition Promise_all :: "world \<Rightarrow> (cache, 'a) io list \<Rightarrow> (cache, 'a list) io" where
  "Promise_all w branches =
     (\<lambda>c. let runs = map (\<lambda>(i, b). b (cache_seen w i c)) (enumerate 0 branches);
              results = map (\<lambda>run. snd (snd run)) runs;
              t = concat (map fst runs);
              c' = foldl (++) c (map (\<lambda>run. fst (snd run)) runs)
          in if list_all (\<lambda>r. \<not> isl r) results then (t, c', Inr (map projr results))
             else
               (let errors = map projl (filter isl results);
                    k = first_rejection w errors
                in (t, c', Inl (if k < length errors then errors ! k else hd errors))))"

section \<open>\<open>aggregateBalances\<close> (\<open>balanceFetcher.ts\<close>, lines 324 to 358)\<close>

text \<open>
  \<open>xs.reduce((sum, x) => sum + BigInt(f(x)), BigInt(0))\<close>: the fold stops with the
  \<open>SyntaxError\<close> of the first element whose string is no \<open>bigint\<close>.
\<close>

fun reduce_BigInt :: "('a \<Rightarrow> string) \<Rightarrow> int \<Rightarrow> 'a list \<Rightarrow> int result" where
  "reduce_BigInt f sum_acc [] = Inr sum_acc"
| "reduce_BigInt f sum_acc (x # xs) =
     (case BigInt (f x) of
        Inl e \<Rightarrow> Inl e
      | Inr b \<Rightarrow> reduce_BigInt f (sum_acc + b) xs)"

text \<open>
  The clock is an argument: \<open>now_ms\<close> is what \<open>Date.now()\<close> returns. The calls of the
  logger are left out.
\<close>

definition aggregateBalances ::
  "nat \<Rightarrow> ChainBalance list \<Rightarrow> VaultBalance list \<Rightarrow> AggregatedBalances result" where
  "aggregateBalances now_ms cbs vbs =
     (case reduce_BigInt VaultBalance.aTokenBalance 0 vbs of
        Inl e \<Rightarrow> Inl e
      | Inr totalVaultATokens \<Rightarrow>
     (case reduce_BigInt usdcBalance 0 vbs of
        Inl e \<Rightarrow> Inl e
      | Inr totalVaultUSDC \<Rightarrow>
          (let totalATokens' = totalVaultATokens;
               totalValue' = totalATokens' + totalVaultUSDC
           in Inr \<lparr>totalATokens = bigint_toString totalATokens',
                    totalUSDC = bigint_toString totalVaultUSDC,
                    totalValue = bigint_toString totalValue',
                    chainBalances = cbs,
                    vaultBalances = vbs,
                    timestamp = now_ms div 1000\<rparr>)))"

text \<open>The outcomes of the branches, in branch order.\<close>

definition branch_results :: "world \<Rightarrow> (cache, 'a) io list \<Rightarrow> cache \<Rightarrow> 'a result list" where
  "branch_results w bs c = map (\<lambda>(i, b). snd (snd (b (cache_seen w i c)))) (enumerate 0 bs)"

section \<open>Token addresses and balances (\<open>balanceFetcher.ts\<close>, lines 1 to 319)\<close>

definition KNOWN_ATOKEN_ADDRESSES :: "(nat \<times> (string \<times> string) list) list" where
  "KNOWN_ATOKEN_ADDRESSES =
     [(11155111,
       [(''0xaa8e23fb1079ea71e0a56f48a2aa51851d8433d0'', ''0x8A458A9dc9048e005d22849F470891b840296619'')]),
      (84532,
       [(''0x036cbd53842c5426634e7929541ec2318f3dcf7e'', ''0x4e65fE4DbA92790696d040ac24Aa414708F5c0AB''),
        (''0x75faf114eafb1bdbe2f0316df893fd58ce46aa4d'', ''0x4e65fE4DbA92790696d040ac24Aa414708F5c0AB'')]),
      (421614,
       [(''0x75faf114eafb1bdbe2f0316df893fd58ce46aa4d'', ''0x460b97BD498E1157530AEb3086301d5225b91216'')]),
      (11155420,
       [(''0x5fd84259d66cd46123540766be93dfe6d43130d7'', ''0x16dA4541aD1807f4443d92D26044C1147406EB80'')])]"

text \<open>
  \<open>chainAddresses && chainAddresses[usdcAddress.toLowerCase()]\<close>, when it is truthy:
  what the object of the chain id gives for the lower-cased address, which is its entry
  of the table or, for a name that every object inherits, the inherited value. (The
  outer read is by the decimal string of a number, which is none of the inherited
  names: it finds the four chain ids and nothing else.)
\<close>

definition known_aToken :: "nat \<Rightarrow> string \<Rightarrow> js_value option" where
  "known_aToken cid usdc =
     (case map_of KNOWN_ATOKEN_ADDRESSES cid of
        None \<Rightarrow> None
      | Some chainAddresses \<Rightarrow>
          (if truthy (get_property chainAddresses (toLowerCase usdc))
           then get_property chainAddresses (toLowerCase usdc) else None))"

text \<open>
  \<open>new ethers.Contract(target, abi, provider)\<close>: ethers takes a string (an address, or
  a name that it resolves when a call is made) and throws for a target that is neither
  a string nor an object with \<open>getAddress\<close>, which no inherited value is. A contract
  is modelled as the string its calls go to.
\<close>

definition new_Contract :: "world \<Rightarrow> js_value \<Rightarrow> string result" where
  "new_Contract w target =
     (case target of
        JsString a \<Rightarrow> Inr a
      | Inherited k \<Rightarrow> Inl (Contract_refused w (Inherited k)))"

definition cacheKey_of :: "ChainConfig \<Rightarrow> string \<Rightarrow> string" where
  "cacheKey_of chainConfig usdc = number_toString (ChainConfig.chainId chainConfig) @ ''-'' @ usdc"

text \<open>The state of these functions is the module's \<open>aTokenAddressCache\<close>.\<close>

definition getATokenAddress :: "world \<Rightarrow> ChainConfig \<Rightarrow> string \<Rightarrow> (cache, js_value) io" where
  "getATokenAddress w chainConfig usdc =
     (let cacheKey = cacheKey_of chainConfig usdc
      in io_bind io_get (\<lambda>aTokenAddressCache.
           if aTokenAddressCache cacheKey \<noteq> None then io_return (the (aTokenAddressCache cacheKey))
           else
             io_catch
               (io_bind
                  (io_call (Call_getReserveData (rpcUrl chainConfig) (aavePoolAddress chainConfig) usdc)
                     (getReserveData w (rpcUrl chainConfig) (aavePoolAddress chainConfig) usdc))
                  (\<lambda>aTokenAddress'.
                     io_bind (io_modify (\<lambda>m. m(cacheKey \<mapsto> JsString aTokenAddress')))
                       (\<lambda>_. io_return (JsString aTokenAddress'))))
               (\<lambda>error.
                  case known_aToken (ChainConfig.chainId chainConfig) usdc of
                    Some aTokenAddress' \<Rightarrow>
                      io_bind (io_modify (\<lambda>m. m(cacheKey \<mapsto> aTokenAddress')))
                        (\<lambda>_. io_return aTokenAddress')
                  | None \<Rightarrow>
                      io_throw
                        (new_Error
                           (''Failed to get aToken address on '' @ ChainConfig.name chainConfig @ '': ''
                            @ error_toString error)))))"

text \<open>
  The inner \<open>try\<close> of the three balance readers (lines 97 to 108, 144 to 154 and 184
  to 194): the code \<open>BAD_DATA\<close> makes the balance \<open>0n\<close>, any other error is thrown on.
  The contract object is made before that \<open>try\<close>. Where a \<open>ChainBalance\<close> is built
  the token address is the string the contract was made from.
\<close>

definition fetchATokenBalance :: "world \<Rightarrow> ChainConfig \<Rightarrow> string \<Rightarrow> (cache, ChainBalance) io" where
  "fetchATokenBalance w chainConfig agentAddress' =
     io_catch
       (io_bind (getATokenAddress w chainConfig (usdcAddress chainConfig)) (\<lambda>aTokenAddress'.
        io_bind (io_lift (new_Contract w aTokenAddress')) (\<lambda>aToken.
        io_bind
          (io_catch
             (io_call (Call_balanceOf (rpcUrl chainConfig) aToken agentAddress')
                (balanceOf w (rpcUrl chainConfig) aToken agentAddress'))
             (\<lambda>balanceError.
                if err_code balanceError = Some ''BAD_DATA'' then io_return 0
                else io_throw balanceError)) (\<lambda>balance'.
        io_bind
          (io_call (Call_getBlockNumber (rpcUrl chainConfig)) (getBlockNumber w (rpcUrl chainConfig)))
          (\<lambda>blockNumber'.
        io_return
          \<lparr>ChainBalance.chainId = ChainConfig.chainId chainConfig,
           chainName = ChainConfig.name chainConfig,
           aTokenBalance = bigint_toString balance',
           aTokenAddress = aToken,
           blockNumber = blockNumber',
           timestamp = Date_now w div 1000\<rparr>)))))
       (\<lambda>error.
          io_throw
            (new_Error
               (''Failed to fetch aToken balance on '' @ ChainConfig.name chainConfig @ '': ''
                @ error_toString error)))"

definition fetchVaultUSDCBalance :: "world \<Rightarrow> ChainConfig \<Rightarrow> string \<Rightarrow> (cache, string) io" where
  "fetchVaultUSDCBalance w chainConfig vaultAddress' =
     io_catch
       (io_bind
          (io_catch
             (io_call (Call_balanceOf (rpcUrl chainConfig) (usdcAddress chainConfig) vaultAddress')
                (balanceOf w (rpcUrl chainConfig) (usdcAddress chainConfig) vaultAddress'))
             (\<lambda>balanceError.
                if err_code balanceError = Some ''BAD_DATA'' then io_return 0
                else io_throw balanceError)) (\<lambda>balance'.
        io_return (bigint_toString balance')))
       (\<lambda>error.
          io_throw
            (new_Error
               (''Failed to fetch USDC balance on '' @ ChainConfig.name chainConfig @ '': ''
                @ error_toString error)))"

definition fetchVaultATokenBalance :: "world \<Rightarrow> ChainConfig \<Rightarrow> string \<Rightarrow> (cache, string) io" where
  "fetchVaultATokenBalance w chainConfig vaultAddress' =
     io_catch
       (io_bind (getATokenAddress w chainConfig (usdcAddress chainConfig)) (\<lambda>aTokenAddress'.
        io_bind (io_lift (new_Contract w aTokenAddress')) (\<lambda>aToken.
        io_bind
          (io_catch
             (io_call (Call_balanceOf (rpcUrl chainConfig) aToken vaultAddress')
                (balanceOf w (rpcUrl chainConfig) aToken vaultAddress'))
             (\<lambda>balanceError.
                if err_code balanceError = Some ''BAD_DATA'' then io_return 0
                else io_throw balanceError)) (\<lambda>balance'.
        io_return (bigint_toString balance')))))
       (\<lambda>error.
          io_throw
            (new_Error
               (''Failed to fetch vault aToken balance on '' @ ChainConfig.name chainConfig @ '': ''
                @ error_toString error)))"

text \<open>
  \<open>fetchVaultBalance\<close>: the block number, then \<open>totalAssets()\<close>; the \<open>catch\<close> of that
  one call returns from the function with the two token balances, read concurrently.
\<close>

definition fetchVaultBalance :: "world \<Rightarrow> ChainConfig \<Rightarrow> string \<Rightarrow> (cache, VaultBalance) io" where
  "fetchVaultBalance w chainConfig vaultAddress' =
     io_catch
       (io_bind
          (io_call (Call_getBlockNumber (rpcUrl chainConfig)) (getBlockNumber w (rpcUrl chainConfig)))
          (\<lambda>blockNumber'.
        io_try
          (io_call (Call_totalAssets (rpcUrl chainConfig) vaultAddress')
             (totalAssets w (rpcUrl chainConfig) vaultAddress'))
          (\<lambda>totalAssets'.
             io_return
               \<lparr>VaultBalance.chainId = ChainConfig.chainId chainConfig,
                chainName = ChainConfig.name chainConfig,
                vaultAddress = vaultAddress',
                usdcBalance = ''0'',
                aTokenBalance = bigint_toString totalAssets',
                blockNumber = blockNumber',
                timestamp = Date_now w div 1000\<rparr>)
          (\<lambda>error.
             io_bind
               (Promise_all w
                  [fetchVaultUSDCBalance w chainConfig vaultAddress',
                   fetchVaultATokenBalance w chainConfig vaultAddress'])
               (\<lambda>both.
                  io_return
                    \<lparr>VaultBalance.chainId = ChainConfig.chainId chainConfig,
                     chainName = ChainConfig.name chainConfig,
                     vaultAddress = vaultAddress',
                     usdcBalance = both ! 0,
                     aTokenBalance = both ! 1,
                     blockNumber = blockNumber',
                     timestamp = Date_now w div 1000\<rparr>))))
       (\<lambda>error.
          io_throw
            (new_Error
               (''Failed to fetch vault balance on '' @ ChainConfig.name chainConfig @ '': ''
                @ error_toString error)))"

text \<open>
  The two fan-outs. The \<open>catch\<close> around each branch logs the error and throws it again.
\<close>

definition fetchChainBalances ::
  "world \<Rightarrow> (string \<times> ChainConfig) list \<Rightarrow> string \<Rightarrow> (cache, ChainBalance list) io" where
  "fetchChainBalances w cfgs agentAddress' =
     (let chains = getAllChains cfgs
      in Promise_all w
           (map (\<lambda>chain. io_catch (fetchATokenBalance w chain agentAddress') (\<lambda>error. io_throw error))
              chains))"

definition fetchVaultBalances ::
  "world \<Rightarrow> (string \<times> ChainConfig) list \<Rightarrow> (cache, VaultBalance list) io" where
  "fetchVaultBalances w cfgs =
     (let vaults = getAllVaults cfgs
      in Promise_all w
           (map (\<lambda>v.
                   case getChainById cfgs (VaultRef.chainId v) of
                     None \<Rightarrow>
                       io_throw
                         (new_Error (''Chain '' @ number_toString (VaultRef.chainId v) @ '' not found''))
                   | Some chain \<Rightarrow>
                       io_catch (fetchVaultBalance w chain (VaultRef.vaultAddress v))
                         (\<lambda>error. io_throw error))
              vaults))"

text \<open>One branch of \<open>fetchVaultBalances\<close>, without its \<open>catch\<close>.\<close>

definition vault_branch :: "world \<Rightarrow> (string \<times> ChainConfig) list \<Rightarrow> VaultRef \<Rightarrow> (cache, VaultBalance) io" where
  "vault_branch w cfgs v =
     (case getChainById cfgs (VaultRef.chainId v) of
        None \<Rightarrow> io_throw (new_Error (''Chain '' @ number_toString (VaultRef.chainId v) @ '' not found''))
      | Some chain \<Rightarrow> fetchVaultBalance w chain (VaultRef.vaultAddress v))"

section \<open>\<open>NearContractService\<close> (\<open>nearContractService.ts\<close>)\<close>

text \<open>The constructor, with the initial values of the fields (lines 16 to 37).\<close>

definition NearContractService_new :: "env \<Rightarrow> NearContractService result" where
  "NearContractService_new env =
     (if falsy (env ''NEAR_ACCOUNT_ID'') \<or> falsy (env ''NEAR_PRIVATE_KEY'') then
        Inl (new_Error ''NEAR credentials required: Set NEAR_ACCOUNT_ID and NEAR_PRIVATE_KEY in .env'')
      else if falsy (env ''NEAR_CONTRACT_ID'') then
        Inl (new_Error ''NEAR_CONTRACT_ID required in .env'')
      else
        Inr \<lparr>nearContractId = the (env ''NEAR_CONTRACT_ID''),
             nearAccountId = the (env ''NEAR_ACCOUNT_ID''),
             agentAddress = ''0x20f2747bbc52453ac0774b5b2fe0e28dc6637f30'',
             keyStore = None,
             isInitialized = False\<rparr>)"

definition setKey :: "string \<Rightarrow> string \<Rightarrow> string \<Rightarrow> key_store \<Rightarrow> key_store" where
  "setKey networkId accountId keyPair ks =
     ((networkId, accountId), keyPair) # filter (\<lambda>entry. fst entry \<noteq> (networkId, accountId)) ks"

text \<open>The state of the methods is the object \<open>this\<close>.\<close>

definition initialize :: "libs \<Rightarrow> env \<Rightarrow> (NearContractService, unit) io" where
  "initialize L env =
     io_bind io_get (\<lambda>this.
       if isInitialized this then io_return ()
       else
         io_bind (io_modify (\<lambda>t. t\<lparr>keyStore := Some []\<rparr>)) (\<lambda>_.
         io_bind (io_lift (KeyPair_fromString L (env ''NEAR_PRIVATE_KEY''))) (\<lambda>keyPair.
         io_modify
           (\<lambda>t. t\<lparr>keyStore := Some (setKey ''testnet'' (nearAccountId t) keyPair (the (keyStore t))),
                   isInitialized := True\<rparr>))))"

definition getAgentAddress :: "(NearContractService, string) io" where
  "getAgentAddress = io_bind io_get (\<lambda>this. io_return (NearContractService.agentAddress this))"

text \<open>Lines 81 to 92.\<close>

definition build_args :: "CrossChainBalanceSnapshot \<Rightarrow> string \<Rightarrow> nat \<Rightarrow> SignCallArgs" where
  "build_args snapshot vaultAddress' chainId' =
     \<lparr>SignCallArgs.args =
        \<lparr>SnapshotDigestArgs.balance = parseInt (CrossChainBalanceSnapshot.balance snapshot),
         chain_id = chainId',
         verifying_contract = vaultAddress',
         nonce = parseInt (CrossChainBalanceSnapshot.nonce snapshot),
         deadline = parseInt (CrossChainBalanceSnapshot.deadline snapshot),
         assets = CrossChainBalanceSnapshot.assets snapshot,
         receiver = CrossChainBalanceSnapshot.receiver snapshot\<rparr>,
      callback_gas_tgas = 50\<rparr>"

text \<open>
  \<open>Buffer.from(array)\<close>: one byte for each element, a number modulo 256.
\<close>

definition ToUint8 :: "libs \<Rightarrow> json \<Rightarrow> byte" where
  "ToUint8 L j = (case j of JNumber n \<Rightarrow> of_int n | _ \<Rightarrow> ToUint8_other L j)"

definition Buffer_from :: "libs \<Rightarrow> json list \<Rightarrow> byte list" where
  "Buffer_from L elems = map (ToUint8 L) elems"

text \<open>
  \<open>signBalanceSnapshot\<close> (lines 59 to 204). \<open>new Uint8Array([v])\<close> stores \<open>v\<close> modulo
  256. The \<open>catch\<close> around the body logs the error and throws it again.
\<close>

definition signBalanceSnapshot ::
  "libs \<Rightarrow> world \<Rightarrow> env \<Rightarrow> CrossChainBalanceSnapshot \<Rightarrow> string \<Rightarrow> nat
     \<Rightarrow> (NearContractService, MpcSignatureResponse) io" where
  "signBalanceSnapshot L w env snapshot vaultAddress' chainId' =
     io_catch
       (io_bind
          (io_bind io_get (\<lambda>this. if \<not> isInitialized this then initialize L env else io_return ()))
          (\<lambda>_.
        let args' = build_args snapshot vaultAddress' chainId';
            nodeUrl = env_or env ''NEAR_RPC_URL'' ''https://rpc.testnet.near.org''
        in
        io_bind io_get (\<lambda>this.
        io_bind (io_call (Call_connect nodeUrl) (connect w nodeUrl (keyStore this))) (\<lambda>_.
        io_bind (io_call (Call_account (nearAccountId this)) (account w (nearAccountId this))) (\<lambda>_.
        let options =
              \<lparr>contractId = nearContractId this,
               methodName = ''build_and_sign_crosschain_balance_snapshot_tx'',
               args = args',
               gas = ''300000000000000'',
               attachedDeposit = ''0''\<rparr>
        in
        io_bind
          (io_call (Call_functionCall options)
             (functionCall w nodeUrl (nearAccountId this) (keyStore this) options))
          (\<lambda>SuccessValue.
        if falsy SuccessValue then io_throw (new_Error ''No SuccessValue in NEAR transaction result'')
        else
          (let returnString = base64_utf8 L (the SuccessValue)
           in
           io_bind (io_lift (JSON_parse L returnString)) (\<lambda>signatureArray.
           case signatureArray of
             JArray elems \<Rightarrow>
               (let signatureBytes = Buffer_from L elems
                in
                if length signatureBytes \<noteq> 65 then
                  io_throw
                    (new_Error
                       (''Invalid signature length: '' @ number_toString (length signatureBytes)
                        @ '', expected 65''))
                else
                  (let r = subarray 0 32 signatureBytes;
                       s = subarray 32 64 signatureBytes;
                       recoveryId = signatureBytes ! 64;
                       v = unat recoveryId + 27;
                       signature65 = hexlify (r @ s @ [of_nat v]);
                       domain =
                         \<lparr>TypedDataDomain.name = ''AaveVault'',
                          version = ''1'',
                          chainId = chainId',
                          verifyingContract = vaultAddress'\<rparr>
                   in
                   io_bind (io_lift (TypedDataEncoder_hash L domain snapshot)) (\<lambda>digest.
                   io_bind
                     (io_call (Call_recoverAddress digest signature65)
                        (recoverAddress L digest signature65))
                     (\<lambda>recoveredAddress.
                   if toLowerCase recoveredAddress
                      \<noteq> toLowerCase (NearContractService.agentAddress this)
                   then
                     io_throw
                       (new_Error
                          (''Signature verification failed! Recovered '' @ recoveredAddress
                           @ '', expected '' @ NearContractService.agentAddress this))
                   else
                     io_return
                       \<lparr>signature = signature65,
                        agentAddress = NearContractService.agentAddress this\<rparr>))))
           | _ \<Rightarrow> io_throw (new_Error ''Expected signature to be an array of bytes'')))))))))
       (\<lambda>error. io_throw error)"

text \<open>
  Names for three parts of \<open>signBalanceSnapshot\<close>: the signature of lines 143 to 154
  built from the response bytes, the domain of lines 158 to 163, and the argument of
  \<open>account.functionCall\<close> in lines 106 to 112.
\<close>

definition signature65_of :: "byte list \<Rightarrow> string" where
  "signature65_of signatureBytes =
     hexlify (subarray 0 32 signatureBytes @ subarray 32 64 signatureBytes
              @ [of_nat (unat (signatureBytes ! 64) + 27)])"

definition domain_of :: "string \<Rightarrow> nat \<Rightarrow> TypedDataDomain" where
  "domain_of vaultAddress' chainId' =
     \<lparr>TypedDataDomain.name = ''AaveVault'', version = ''1'', chainId = chainId',
      verifyingContract = vaultAddress'\<rparr>"

definition call_options :: "NearContractService \<Rightarrow> CrossChainBalanceSnapshot \<Rightarrow> string \<Rightarrow> nat \<Rightarrow> FunctionCallOptions" where
  "call_options this snapshot vaultAddress' chainId' =
     \<lparr>contractId = nearContractId this,
      methodName = ''build_and_sign_crosschain_balance_snapshot_tx'',
      args = build_args snapshot vaultAddress' chainId',
      gas = ''300000000000000'',
      attachedDeposit = ''0''\<rparr>"

text \<open>
  The states of the one service object of the process: constructed from some
  environment, then changed only by its own methods, called with any arguments.
\<close>

inductive reachable :: "NearContractService \<Rightarrow> bool" where
  constructed: "NearContractService_new env = Inr this \<Longrightarrow> reachable this"
| initialized: "reachable this \<Longrightarrow> reachable (fst (snd (initialize L env this)))"
| asked: "reachable this \<Longrightarrow> reachable (fst (snd (getAgentAddress this)))"
| signed: "reachable this \<Longrightarrow>
     reachable (fst (snd (signBalanceSnapshot L w env snapshot V cid this)))"

section \<open>Deriving the agent address (\<open>derive-agent-address.ts\<close>, \<open>verify-agent-address.ts\<close>)\<close>

text \<open>
  The functions of near-api-js, sha3, secp256k1 and js-sha3 that \<open>deriveAgentAddress\<close>
  calls: base58 decoding, SHA3-256 of a string, and, on serialised public keys,
  conversion to the uncompressed form, the public key of a private key (the multiple
  of the generator), the sum of points, and Keccak-256. Those that can throw return a
  result.
\<close>

record crypto =
  base_decode :: "string \<Rightarrow> byte list result"
  SHA3_256 :: "string \<Rightarrow> byte list"
  publicKeyConvert :: "byte list \<Rightarrow> byte list result"
  publicKeyCreate :: "byte list \<Rightarrow> byte list result"
  publicKeyCombine :: "byte list list \<Rightarrow> byte list result"
  keccak256 :: "byte list \<Rightarrow> byte list"

definition EPSILON_DERIVATION_PREFIX :: string where
  "EPSILON_DERIVATION_PREFIX = ''near-mpc-recovery v0.1.0 epsilon derivation:''"

definition NEAR_CONTRACT_ID :: string where
  "NEAR_CONTRACT_ID = ''rebalancer-abcdefghij-57.testnet''"

definition PATH :: string where
  "PATH = ''ethereum-1''"

text \<open>
  Steps 2 to 5 of \<open>deriveAgentAddress\<close>, the same text in both scripts (lines 27 to 50
  and 33 to 52), with the two module constants as arguments. \<open>rootPublicKey\<close> is the
  string that step 1 reads from the MPC contract.
\<close>

definition deriveAgentAddress_for :: "crypto \<Rightarrow> string \<Rightarrow> string \<Rightarrow> string \<Rightarrow> string result" where
  "deriveAgentAddress_for C contract path rootPublicKey =
     (let derivationString = EPSILON_DERIVATION_PREFIX @ contract @ '','' @ path;
          epsilonHash = SHA3_256 C derivationString
      in
      case base_decode C rootPublicKey of
        Inl e \<Rightarrow> Inl e
      | Inr decoded \<Rightarrow>
      (case (if length decoded = 64 then Inr (4 # decoded)
             else if length decoded = 33 then publicKeyConvert C decoded
             else Inr decoded) of
        Inl e \<Rightarrow> Inl e
      | Inr rootPkBytes \<Rightarrow>
      (case publicKeyCreate C epsilonHash of
        Inl e \<Rightarrow> Inl e
      | Inr epsilonPoint \<Rightarrow>
      (case publicKeyCombine C [rootPkBytes, epsilonPoint] of
        Inl e \<Rightarrow> Inl e
      | Inr derivedPkBytes \<Rightarrow>
          (let pkForHashing = slice_from 1 derivedPkBytes;
               addressHash = keccak256 C pkForHashing;
               address = ''0x'' @ toString_hex (slice_from (- 20) addressHash)
           in Inr address)))))"

definition deriveAgentAddress :: "crypto \<Rightarrow> string \<Rightarrow> string result" where
  "deriveAgentAddress C rootPublicKey = deriveAgentAddress_for C NEAR_CONTRACT_ID PATH rootPublicKey"

text \<open>
  The last \<open>n\<close> bytes of a byte string, in the words of the specification (the code
  takes them with \<open>slice(-20)\<close>), and a hex string read back to bytes.
\<close>

definition spec_last_bytes :: "nat \<Rightarrow> 'a list \<Rightarrow> 'a list" where
  "spec_last_bytes n bs = rev (take n (rev bs))"

fun hex_decode :: "string \<Rightarrow> byte list option" where
  "hex_decode [] = Some []"
| "hex_decode [c] = None"
| "hex_decode (a # b # rest) =
     (case (digit_of a, digit_of b, hex_decode rest) of
        (Some x, Some y, Some bs) \<Rightarrow> if x < 16 \<and> y < 16 then Some (of_nat (16 * x + y) # bs) else None
      | _ \<Rightarrow> None)"

section \<open>Example inputs\<close>

text \<open>
  A world in which every remote call fails with a network error and a contract target
  that is not an address is refused with \<open>INVALID_ARGUMENT\<close>, and the Base Sepolia
  entry of the shipped configuration with no environment variable set.
\<close>

definition rpc_down :: js_error where
  "rpc_down = JsError ''Error'' (Some ''NETWORK_ERROR'') ''could not detect network''"

definition invalid_target :: js_error where
  "invalid_target = JsError ''TypeError'' (Some ''INVALID_ARGUMENT'') ''invalid value for Contract target''"

definition offline_world :: world where
  "offline_world =
     \<lparr>getReserveData = (\<lambda>_ _ _. Inl rpc_down),
      balanceOf = (\<lambda>_ _ _. Inl rpc_down),
      getBlockNumber = (\<lambda>_. Inl rpc_down),
      totalAssets = (\<lambda>_ _. Inl rpc_down),
      Date_now = 1700000000999,
      first_rejection = (\<lambda>_. 0),
      cache_seen = (\<lambda>_ c. c),
      connect = (\<lambda>_ _. Inl rpc_down),
      account = (\<lambda>_. Inl rpc_down),
      functionCall = (\<lambda>_ _ _ _. Inl rpc_down),
      Contract_refused = (\<lambda>_. invalid_target)\<rparr>"

definition baseSepolia :: ChainConfig where
  "baseSepolia = the (getChainById (SUPPORTED_CHAINS (\<lambda>_. None)) 84532)"

text \<open>
  Worlds in which every balance call returns no data (\<open>BAD_DATA\<close>) and the block
  number is known; in which the vaults answer \<open>totalAssets\<close>; and in which the RPC of
  Optimism Sepolia alone is down. \<open>shipped\<close> is the configuration with no environment
  variable set.
\<close>

definition bad_data :: js_error where
  "bad_data = JsError ''Error'' (Some ''BAD_DATA'') ''could not decode result data''"

definition empty_data_world :: world where
  "empty_data_world =
     offline_world\<lparr>balanceOf := (\<lambda>_ _ _. Inl bad_data), getBlockNumber := (\<lambda>_. Inr 7654321)\<rparr>"

definition erc4626_world :: world where
  "erc4626_world =
     offline_world\<lparr>getBlockNumber := (\<lambda>_. Inr 7654321), totalAssets := (\<lambda>_ _. Inr 2500000000)\<rparr>"

definition optimism_down_world :: world where
  "optimism_down_world =
     empty_data_world
       \<lparr>getBlockNumber :=
          (\<lambda>url. if url = ''https://sepolia.optimism.io'' then Inl rpc_down else Inr 7654321)\<rparr>"

definition shipped :: "(string \<times> ChainConfig) list" where
  "shipped = SUPPORTED_CHAINS (\<lambda>_. None)"

text \<open>
  A constructed service and the same service initialized; a snapshot; a 65-element
  response with a chosen last element; libraries that parse to a given value and
  recover a given address; and a world whose NEAR calls succeed.
\<close>

definition env0 :: env where
  "env0 =
     [''NEAR_ACCOUNT_ID'' \<mapsto> ''oracle.testnet'',
      ''NEAR_PRIVATE_KEY'' \<mapsto> ''ed25519:secret'',
      ''NEAR_CONTRACT_ID'' \<mapsto> ''rebalancer-abcdefghij-57.testnet'']"

definition env1 :: env where
  "env1 =
     [''NEAR_ACCOUNT_ID'' \<mapsto> ''someone-else.testnet'',
      ''NEAR_PRIVATE_KEY'' \<mapsto> ''ed25519:other'',
      ''NEAR_CONTRACT_ID'' \<mapsto> ''another-contract.testnet'']"

definition service0 :: NearContractService where
  "service0 =
     \<lparr>nearContractId = ''rebalancer-abcdefghij-57.testnet'',
      nearAccountId = ''oracle.testnet'',
      agentAddress = ''0x20f2747bbc52453ac0774b5b2fe0e28dc6637f30'',
      keyStore = None,
      isInitialized = False\<rparr>"

definition service1 :: NearContractService where
  "service1 =
     service0\<lparr>keyStore := Some [((''testnet'', ''oracle.testnet''), ''ed25519:secret'')],
              isInitialized := True\<rparr>"

definition snapshot0 :: CrossChainBalanceSnapshot where
  "snapshot0 =
     \<lparr>CrossChainBalanceSnapshot.balance = ''2500000000'', nonce = ''7'', deadline = ''1700000300'',
      assets = ''1000000'', receiver = ''0x70997970C51812dc3A010C7d01b50e0d17dc79C8''\<rparr>"

definition response :: "int \<Rightarrow> json list" where
  "response k = replicate 32 (JNumber 17) @ replicate 32 (JNumber 34) @ [JNumber k]"

definition libs_with :: "json \<Rightarrow> string \<Rightarrow> libs" where
  "libs_with parsed recovered =
     \<lparr>KeyPair_fromString = (\<lambda>k. case k of None \<Rightarrow> Inl (JsError ''TypeError'' None ''no key'') | Some s \<Rightarrow> Inr s),
      base64_utf8 = (\<lambda>s. s),
      JSON_parse = (\<lambda>s. Inr parsed),
      ToUint8_other = (\<lambda>j. 0),
      TypedDataEncoder_hash = (\<lambda>domain v. Inr ''0xd1''),
      recoverAddress = (\<lambda>digest sg. Inr recovered)\<rparr>"

definition signer_world :: world where
  "signer_world =
     offline_world
       \<lparr>connect := (\<lambda>_ _. Inr ()), account := (\<lambda>_. Inr ()),
        functionCall := (\<lambda>_ _ _ _. Inr (Some ''WzE3LC4uLl0=''))\<rparr>"

text \<open>
  Stand-ins for the cryptographic primitives that make the data flow of the derivation
  visible: the hash of a string is 32 copies of its length, the sum of two points adds
  bytewise, and the Keccak stand-in keeps the first 32 bytes.
\<close>

definition toy_crypto :: crypto where
  "toy_crypto =
     \<lparr>base_decode = (\<lambda>s. if s = ''raw'' then Inr (replicate 64 2) else Inr (replicate 33 2)),
      SHA3_256 = (\<lambda>s. replicate 32 (of_nat (length s))),
      publicKeyConvert = (\<lambda>b. Inr (4 # replicate 64 2)),
      publicKeyCreate = (\<lambda>h. Inr (4 # h @ h)),
      publicKeyCombine = (\<lambda>ps. Inr (4 # map (\<lambda>(x, y). x + y) (zip (tl (ps ! 0)) (tl (ps ! 1))))),
      keccak256 = (\<lambda>bs. take 32 bs)\<rparr>"

section \<open>Decimal strings: printing and reading back\<close>

lemma dec_digits_ne: "dec_digits n \<noteq> []"
  by (subst dec_digits.simps) simp

lemma digit_cases: "d < 10 \<Longrightarrow> d \<in> {0, 1, 2, 3, 4, 5, 6, 7, 8, 9::nat}"
  by auto

lemma digit_of_digit_char: "d < 10 \<Longrightarrow> digit_of (digit_char d) = Some d"
  by (drule digit_cases) (auto simp: digit_of_def digit_char_def)

lemma radix_value_snoc: "radix_value R (s @ [c]) = radix_value R s * R + the (digit_of c)"
  by (simp add: radix_value_def)

lemma radix_value_dec_digits: "radix_value 10 (dec_digits n) = n"
proof (induction n rule: dec_digits.induct)
  case (1 n)
  show ?case
  proof (cases "n < 10")
    case True
    then show ?thesis
      by (subst dec_digits.simps) (simp add: radix_value_def digit_of_digit_char)
  next
    case False
    with 1 have "radix_value 10 (dec_digits (n div 10)) = n div 10" by simp
    with False show ?thesis
      by (subst dec_digits.simps) (simp add: radix_value_snoc digit_of_digit_char)
  qed
qed

lemma is_radix_digit_digit_char: "d < 10 \<Longrightarrow> is_radix_digit 10 (digit_char d)"
  by (simp add: is_radix_digit_def digit_of_digit_char)

lemma all_digits_dec_digits: "list_all (is_radix_digit 10) (dec_digits n)"
proof (induction n rule: dec_digits.induct)
  case (1 n)
  show ?case
  proof (cases "n < 10")
    case True
    then show ?thesis
      by (subst dec_digits.simps) (simp add: is_radix_digit_digit_char)
  next
    case False
    with 1 have "list_all (is_radix_digit 10) (dec_digits (n div 10))" by simp
    with False show ?thesis
      by (subst dec_digits.simps) (simp add: is_radix_digit_digit_char)
  qed
qed

lemma radix_digits_dec_digits: "radix_digits 10 (dec_digits n) = Some n"
  by (simp add: radix_digits_def dec_digits_ne all_digits_dec_digits radix_value_dec_digits)

lemma digit_not_space: "is_radix_digit 10 c \<Longrightarrow> \<not> isStrWhiteSpaceChar c"
  by (auto simp: is_radix_digit_def digit_of_def isStrWhiteSpaceChar_def Let_def split: if_splits option.splits)

lemma trimStart_id: "s \<noteq> [] \<Longrightarrow> \<not> isStrWhiteSpaceChar (hd s) \<Longrightarrow> trimStart s = s"
  by (cases s) (simp_all add: trimStart_def)

lemma trim_id: "s \<noteq> [] \<Longrightarrow> \<not> isStrWhiteSpaceChar (hd s) \<Longrightarrow> \<not> isStrWhiteSpaceChar (last s) \<Longrightarrow> trim s = s"
  by (simp add: trim_def trimStart_id hd_rev)

lemma hd_dec_digits: "is_radix_digit 10 (hd (dec_digits n))"
  using all_digits_dec_digits [of n] dec_digits_ne [of n] by (cases "dec_digits n") simp_all

lemma last_dec_digits: "is_radix_digit 10 (last (dec_digits n))"
  using all_digits_dec_digits [of n] dec_digits_ne [of n]
  by (simp add: list_all_iff)

lemma trim_dec_digits: "trim (dec_digits n) = dec_digits n"
  by (simp add: trim_id dec_digits_ne digit_not_space hd_dec_digits last_dec_digits)

lemma take2_all_digits:
  assumes "list_all (is_radix_digit 10) s" "take 2 s = [a, b]"
  shows "is_radix_digit 10 a \<and> is_radix_digit 10 b"
  using assms by (cases s; cases "tl s") auto

lemma not_digit_chars:
  "\<not> is_radix_digit 10 CHR ''+''" "\<not> is_radix_digit 10 CHR ''-''"
  "\<not> is_radix_digit 10 CHR ''x''" "\<not> is_radix_digit 10 CHR ''X''"
  "\<not> is_radix_digit 10 CHR ''o''" "\<not> is_radix_digit 10 CHR ''O''"
  "\<not> is_radix_digit 10 CHR ''b''" "\<not> is_radix_digit 10 CHR ''B''"
  by (simp_all add: is_radix_digit_def digit_of_def)

lemma StringToBigInt_dec_digits: "StringToBigInt (dec_digits n) = Some (int n)"
proof -
  let ?s = "dec_digits n"
  have a: "list_all (is_radix_digit 10) ?s" by (rule all_digits_dec_digits)
  have h: "hd ?s \<noteq> CHR ''+''" "hd ?s \<noteq> CHR ''-''"
    using hd_dec_digits [of n] not_digit_chars by auto
  have p: "take 2 ?s \<noteq> [c, d]" if "\<not> is_radix_digit 10 d" for c d
    using take2_all_digits [OF a] that by blast
  show ?thesis
    by (simp add: StringToBigInt_def trim_dec_digits dec_digits_ne h p not_digit_chars
        radix_digits_dec_digits)
qed

lemma StringToBigInt_toString: "StringToBigInt (bigint_toString i) = Some i"
proof (cases "i < 0")
  case False
  then show ?thesis by (simp add: bigint_toString_def StringToBigInt_dec_digits)
next
  case True
  let ?s = "CHR ''-'' # dec_digits (nat (- i))"
  have "\<not> isStrWhiteSpaceChar CHR ''-''" by (simp add: isStrWhiteSpaceChar_def)
  then have "trim ?s = ?s"
    by (intro trim_id) (simp_all add: dec_digits_ne digit_not_space last_dec_digits)
  with True show ?thesis
    by (simp add: bigint_toString_def StringToBigInt_def radix_digits_dec_digits)
qed

lemma BigInt_toString: "BigInt (bigint_toString i) = Inr i"
  by (simp add: BigInt_def StringToBigInt_toString)

section \<open>The totals of \<open>aggregateBalances\<close>\<close>

lemma reduce_BigInt_sum:
  "map (\<lambda>x. BigInt (f x)) xs = map Inr bs \<Longrightarrow> reduce_BigInt f a xs = Inr (a + sum_list bs)"
proof (induction xs arbitrary: a bs)
  case Nil
  then show ?case by simp
next
  case (Cons x xs)
  then obtain b bs' where bs: "bs = b # bs'" by (cases bs) auto
  with Cons.prems have "BigInt (f x) = Inr b" "map (\<lambda>x. BigInt (f x)) xs = map Inr bs'" by auto
  with Cons.IH [of bs' "a + b"] bs show ?case by (simp add: add.assoc)
qed



text \<open>
  Claim C7. For every list of vault balances whose balance strings are integers,
  \<open>aggregateBalances\<close> returns \<open>totalATokens\<close> as the exact sum of the invested
  (aToken) balances, \<open>totalUSDC\<close> as the exact sum of the idle (USDC) balances and
  \<open>totalValue\<close> as the sum of the two, in unbounded integers; reading each total back
  gives that sum, whatever the size of the operands.
\<close>

theorem aggregateBalances_exact_sums:
  assumes "map (\<lambda>v. BigInt (VaultBalance.aTokenBalance v)) vbs = map Inr invested"
    and "map (\<lambda>v. BigInt (usdcBalance v)) vbs = map Inr idle"
  shows "\<exists>agg. aggregateBalances now_ms cbs vbs = Inr agg
           \<and> totalATokens agg = bigint_toString (sum_list invested)
           \<and> totalUSDC agg = bigint_toString (sum_list idle)
           \<and> totalValue agg = bigint_toString (sum_list invested + sum_list idle)
           \<and> BigInt (totalATokens agg) = Inr (sum_list invested)
           \<and> BigInt (totalUSDC agg) = Inr (sum_list idle)
           \<and> BigInt (totalValue agg) = Inr (sum_list invested + sum_list idle)"
proof -
  have a: "reduce_BigInt VaultBalance.aTokenBalance 0 vbs = Inr (sum_list invested)"
    using reduce_BigInt_sum [OF assms(1), of 0] by simp
  have u: "reduce_BigInt usdcBalance 0 vbs = Inr (sum_list idle)"
    using reduce_BigInt_sum [OF assms(2), of 0] by simp
  show ?thesis
    by (simp add: aggregateBalances_def a u BigInt_toString Let_def)
qed

lemma BigInt_eval:
  "BigInt ''18446744073709551615'' = Inr 18446744073709551615"
  "BigInt ''18446744073709551616'' = Inr 18446744073709551616"
  "BigInt ''1'' = Inr 1"
  "BigInt ''0'' = Inr 0"
  by (simp_all add: BigInt_def StringToBigInt_def trim_def trimStart_def isStrWhiteSpaceChar_def
      radix_digits_def radix_value_def is_radix_digit_def digit_of_def)

theorem aggregateBalances_exact_sums_witness:
  "(let vbs = [\<lparr>VaultBalance.chainId = 84532, chainName = ''Base Sepolia'', vaultAddress = ''0x773035EABdA16B5416B26E12156483C6B6F56451'',
                usdcBalance = ''0'', aTokenBalance = ''18446744073709551615'',
                blockNumber = 7, timestamp = 1700000000\<rparr>,
              \<lparr>VaultBalance.chainId = 421614, chainName = ''Arbitrum Sepolia'', vaultAddress = ''0xE168d95f8d1B8EC167A63c8E696076EC8EE95337'',
                usdcBalance = ''18446744073709551616'', aTokenBalance = ''1'',
                blockNumber = 9, timestamp = 1700000000\<rparr>]
    in map (\<lambda>v. BigInt (VaultBalance.aTokenBalance v)) vbs = map Inr [18446744073709551615, 1]
     \<and> map (\<lambda>v. BigInt (usdcBalance v)) vbs = map Inr [0, 18446744073709551616]
     \<and> (\<exists>agg. aggregateBalances 1700000000999 [] vbs = Inr agg
           \<and> totalATokens agg = ''18446744073709551616''
           \<and> totalUSDC agg = ''18446744073709551616''
           \<and> totalValue agg = ''36893488147419103232''))"
proof -
  let ?vbs = "[\<lparr>VaultBalance.chainId = 84532, chainName = ''Base Sepolia'', vaultAddress = ''0x773035EABdA16B5416B26E12156483C6B6F56451'',
                usdcBalance = ''0'', aTokenBalance = ''18446744073709551615'',
                blockNumber = 7, timestamp = 1700000000\<rparr>,
              \<lparr>VaultBalance.chainId = 421614, chainName = ''Arbitrum Sepolia'', vaultAddress = ''0xE168d95f8d1B8EC167A63c8E696076EC8EE95337'',
                usdcBalance = ''18446744073709551616'', aTokenBalance = ''1'',
                blockNumber = 9, timestamp = 1700000000\<rparr>]"
  have h1: "map (\<lambda>v. BigInt (VaultBalance.aTokenBalance v)) ?vbs = map Inr [18446744073709551615, 1]"
    by (simp add: BigInt_eval)
  have h2: "map (\<lambda>v. BigInt (usdcBalance v)) ?vbs = map Inr [0, 18446744073709551616]"
    by (simp add: BigInt_eval)
  have s1: "bigint_toString 18446744073709551616 = ''18446744073709551616''"
    by (simp add: bigint_toString_def dec_digits.simps digit_char_def)
  have s2: "bigint_toString 18446744073709551616 = ''18446744073709551616''"
    by (simp add: bigint_toString_def dec_digits.simps digit_char_def)
  have s3: "bigint_toString 36893488147419103232 = ''36893488147419103232''"
    by (simp add: bigint_toString_def dec_digits.simps digit_char_def)
  from aggregateBalances_exact_sums [OF h1 h2, of 1700000000999 "[]"]
  obtain agg where "aggregateBalances 1700000000999 [] ?vbs = Inr agg"
    and "totalATokens agg = bigint_toString 18446744073709551616"
    and "totalUSDC agg = bigint_toString 18446744073709551616"
    and "totalValue agg = bigint_toString 36893488147419103232"
    by auto
  with s1 s2 s3 have "\<exists>agg. aggregateBalances 1700000000999 [] ?vbs = Inr agg
           \<and> totalATokens agg = ''18446744073709551616''
           \<and> totalUSDC agg = ''18446744073709551616''
           \<and> totalValue agg = ''36893488147419103232''"
    by simp
  with h1 h2 show ?thesis unfolding Let_def by blast
qed

section \<open>Resolving a token address\<close>

lemmas io_defs = io_bind_def io_try_def io_catch_def io_get_def io_return_def io_throw_def
  io_call_def io_modify_def io_lift_def

lemma getATokenAddress_unfold:
  "getATokenAddress w cfg usdc c =
     (case c (cacheKey_of cfg usdc) of
        Some a \<Rightarrow> ([], c, Inr a)
      | None \<Rightarrow>
          (case getReserveData w (rpcUrl cfg) (aavePoolAddress cfg) usdc of
             Inr a \<Rightarrow>
               ([Call_getReserveData (rpcUrl cfg) (aavePoolAddress cfg) usdc],
                c(cacheKey_of cfg usdc \<mapsto> JsString a), Inr (JsString a))
           | Inl e \<Rightarrow>
               (case known_aToken (ChainConfig.chainId cfg) usdc of
                  Some a \<Rightarrow>
                    ([Call_getReserveData (rpcUrl cfg) (aavePoolAddress cfg) usdc],
                     c(cacheKey_of cfg usdc \<mapsto> a), Inr a)
                | None \<Rightarrow>
                    ([Call_getReserveData (rpcUrl cfg) (aavePoolAddress cfg) usdc], c,
                     Inl (new_Error (''Failed to get aToken address on '' @ ChainConfig.name cfg @ '': ''
                            @ error_toString e))))))"
  by (simp add: getATokenAddress_def io_defs Let_def split: option.splits sum.splits)

lemma minus_not_digit: "\<not> is_radix_digit 10 CHR ''-''"
  by (simp add: not_digit_chars)

lemma takeWhile_digits_key:
  "list_all (is_radix_digit 10) ds \<Longrightarrow> takeWhile (is_radix_digit 10) (ds @ CHR ''-'' # rest) = ds"
  by (induction ds) (simp_all add: minus_not_digit)

lemma dropWhile_digits_key:
  "list_all (is_radix_digit 10) ds \<Longrightarrow> dropWhile (is_radix_digit 10) (ds @ CHR ''-'' # rest) = CHR ''-'' # rest"
  by (induction ds) (simp_all add: minus_not_digit)

lemma dec_digits_inj: "dec_digits m = dec_digits n \<Longrightarrow> m = n"
  by (metis radix_value_dec_digits)

lemma cacheKey_of_inj:
  "cacheKey_of cfg usdc = cacheKey_of cfg' usdc' \<longleftrightarrow>
     ChainConfig.chainId cfg = ChainConfig.chainId cfg' \<and> usdc = usdc'"
proof
  assume eq: "cacheKey_of cfg usdc = cacheKey_of cfg' usdc'"
  let ?a = "dec_digits (ChainConfig.chainId cfg)" and ?b = "dec_digits (ChainConfig.chainId cfg')"
  from eq have e: "?a @ CHR ''-'' # usdc = ?b @ CHR ''-'' # usdc'"
    by (simp add: cacheKey_of_def number_toString_def)
  have "?a = ?b"
    using arg_cong [OF e, of "takeWhile (is_radix_digit 10)"]
    by (simp add: takeWhile_digits_key all_digits_dec_digits)
  moreover have "usdc = usdc'"
    using arg_cong [OF e, of "dropWhile (is_radix_digit 10)"]
    by (simp add: dropWhile_digits_key all_digits_dec_digits)
  ultimately show "ChainConfig.chainId cfg = ChainConfig.chainId cfg' \<and> usdc = usdc'"
    by (simp add: dec_digits_inj)
next
  assume "ChainConfig.chainId cfg = ChainConfig.chainId cfg' \<and> usdc = usdc'"
  then show "cacheKey_of cfg usdc = cacheKey_of cfg' usdc'"
    by (simp add: cacheKey_of_def)
qed

lemma baseSepolia_eq:
  "baseSepolia =
     \<lparr>ChainConfig.chainId = 84532, name = ''Base Sepolia'', rpcUrl = ''https://sepolia.base.org'',
      aavePoolAddress = ''0x6a9d64f93db660eacb2b6e9424792c630cda87d8'',
      usdcAddress = ''0x036CbD53842c5426634e7929541eC2318f3dCF7e'',
      vaultAddress = Some ''0x773035EABdA16B5416B26E12156483C6B6F56451''\<rparr>"
  by (simp add: baseSepolia_def getChainById_def SUPPORTED_CHAINS_def env_or_def falsy_def)

lemma toLowerCase_usdc_base:
  "toLowerCase ''0x036CbD53842c5426634e7929541eC2318f3dCF7e'' = ''0x036cbd53842c5426634e7929541ec2318f3dcf7e''"
  by (simp add: toLowerCase_def toLowerCase_char_def)

lemma known_aToken_base:
  "known_aToken 84532 ''0x036CbD53842c5426634e7929541eC2318f3dCF7e''
     = Some (JsString ''0x4e65fE4DbA92790696d040ac24Aa414708F5c0AB'')"
  by (simp add: known_aToken_def KNOWN_ATOKEN_ADDRESSES_def toLowerCase_usdc_base get_property_def
      truthy_def)

text \<open>
  What \<open>getATokenAddress\<close> does, for every chain configuration and base asset, with
  \<open>key\<close> the cache key of the pair: a cached value is returned with no call and no
  change; on a miss the one call made is the live lookup \<open>getReserveData\<close>; when it
  succeeds its address is returned and cached; when it fails, what the read of the
  static table gives is returned and cached, and the resolution fails, leaving the
  cache as it was, exactly when that read gives nothing truthy; after any successful
  resolution the cache holds the value under the key, every other key is untouched,
  and a later call in any world returns it with no call; and two pairs share a key
  exactly when they have the same chain id and the same asset.
\<close>

lemma getATokenAddress_cases:
  "(c (cacheKey_of cfg usdc) = Some v \<longrightarrow> getATokenAddress w cfg usdc c = ([], c, Inr v))
   \<and> (c (cacheKey_of cfg usdc) = None \<longrightarrow>
        fst (getATokenAddress w cfg usdc c)
          = [Call_getReserveData (rpcUrl cfg) (aavePoolAddress cfg) usdc])
   \<and> (c (cacheKey_of cfg usdc) = None
        \<and> getReserveData w (rpcUrl cfg) (aavePoolAddress cfg) usdc = Inr a \<longrightarrow>
        snd (getATokenAddress w cfg usdc c)
          = (c(cacheKey_of cfg usdc \<mapsto> JsString a), Inr (JsString a)))
   \<and> (c (cacheKey_of cfg usdc) = None
        \<and> getReserveData w (rpcUrl cfg) (aavePoolAddress cfg) usdc = Inl e
        \<and> known_aToken (ChainConfig.chainId cfg) usdc = Some v \<longrightarrow>
        snd (getATokenAddress w cfg usdc c) = (c(cacheKey_of cfg usdc \<mapsto> v), Inr v))
   \<and> (c (cacheKey_of cfg usdc) = None
        \<and> getReserveData w (rpcUrl cfg) (aavePoolAddress cfg) usdc = Inl e \<longrightarrow>
        (isl (snd (snd (getATokenAddress w cfg usdc c)))
           \<longleftrightarrow> known_aToken (ChainConfig.chainId cfg) usdc = None)
        \<and> (isl (snd (snd (getATokenAddress w cfg usdc c)))
           \<longrightarrow> fst (snd (getATokenAddress w cfg usdc c)) = c))
   \<and> (getATokenAddress w cfg usdc c = (t, c', Inr v) \<longrightarrow>
        c' (cacheKey_of cfg usdc) = Some v
        \<and> (\<forall>k. k \<noteq> cacheKey_of cfg usdc \<longrightarrow> c' k = c k)
        \<and> (\<forall>w'. getATokenAddress w' cfg usdc c' = ([], c', Inr v)))
   \<and> (cacheKey_of cfg usdc = cacheKey_of cfg' usdc'
        \<longleftrightarrow> ChainConfig.chainId cfg = ChainConfig.chainId cfg' \<and> usdc = usdc')"
proof -
  have hit: "getATokenAddress w' cfg usdc c' = ([], c', Inr v)" if "c' (cacheKey_of cfg usdc) = Some v"
    for w' c' v
    using that by (simp add: getATokenAddress_unfold)
  have after: "c' (cacheKey_of cfg usdc) = Some v \<and> (\<forall>k. k \<noteq> cacheKey_of cfg usdc \<longrightarrow> c' k = c k)"
    if "getATokenAddress w cfg usdc c = (t, c', Inr v)"
    using that by (auto simp: getATokenAddress_unfold split: option.splits sum.splits)
  show ?thesis
    apply (intro conjI impI)
    subgoal by (simp add: hit)
    subgoal by (simp add: getATokenAddress_unfold split: option.splits sum.splits)
    subgoal by (simp add: getATokenAddress_unfold)
    subgoal by (simp add: getATokenAddress_unfold)
    subgoal by (simp add: getATokenAddress_unfold split: option.splits)
    subgoal by (simp add: getATokenAddress_unfold split: option.splits)
    subgoal using after by blast
    subgoal using after by blast
    subgoal using after hit by blast
    subgoal by (rule cacheKey_of_inj)
    done
qed

text \<open>
  The static table is read as a property of an object literal. A string that is not a
  key of the table gives nothing, unless it is a name that every object inherits:
  lower-cased, that can only be \<open>constructor\<close> or \<open>__proto__\<close>, since the other
  names have a capital letter. So the read gives nothing exactly when the chain id is
  not in the table, or the lower-cased asset is neither a key of the chain's table nor
  one of these two names.
\<close>

lemma upper_code: "c \<in> set ''ABCDEFGHIJKLMNOPQRSTUVWXYZ'' \<Longrightarrow> (of_char c :: nat) \<le> 90"
  by auto

lemma toLowerCase_char_not_upper:
  "toLowerCase_char c \<notin> set ''ABCDEFGHIJKLMNOPQRSTUVWXYZ''"
proof (cases "c \<in> set ''ABCDEFGHIJKLMNOPQRSTUVWXYZ''")
  case True
  then show ?thesis
    by (auto simp: toLowerCase_char_def)
next
  case False
  then have none: "map_of (zip ''ABCDEFGHIJKLMNOPQRSTUVWXYZ'' ''abcdefghijklmnopqrstuvwxyz'') c = None"
    by (simp add: map_of_eq_None_iff)
  show ?thesis
  proof (cases "192 \<le> (of_char c :: nat) \<and> (of_char c :: nat) \<le> 222 \<and> (of_char c :: nat) \<noteq> 215")
    case True
    then have "(of_char (char_of (of_char c + 32 :: nat)) :: nat) = of_char c + 32"
      by simp
    then have "\<not> (of_char (char_of (of_char c + 32 :: nat)) :: nat) \<le> 90"
      using True by simp
    then have up: "char_of (of_char c + 32 :: nat) \<notin> set ''ABCDEFGHIJKLMNOPQRSTUVWXYZ''"
      using upper_code by blast
    have eq: "toLowerCase_char c = char_of (of_char c + 32 :: nat)"
      unfolding toLowerCase_char_def none Let_def option.case by (rule if_P [OF True])
    show ?thesis unfolding eq by (rule up)
  next
    case no: False
    have eq: "toLowerCase_char c = c"
      unfolding toLowerCase_char_def none Let_def option.case by (rule if_not_P [OF no])
    show ?thesis unfolding eq by (rule False)
  qed
qed

lemma toLowerCase_no_upper:
  "x \<in> set (toLowerCase u) \<Longrightarrow> x \<notin> set ''ABCDEFGHIJKLMNOPQRSTUVWXYZ''"
  using toLowerCase_char_not_upper by (auto simp: toLowerCase_def simp del: list.set)

lemma inherited_lower_names:
  "toLowerCase u \<in> set Object_prototype_names
     \<longleftrightarrow> toLowerCase u = ''constructor'' \<or> toLowerCase u = ''__proto__''"
proof -
  have no: "toLowerCase u \<noteq> s" if "x \<in> set s" "x \<in> set ''ABCDEFGHIJKLMNOPQRSTUVWXYZ''" for s x
    using that toLowerCase_no_upper by blast
  have "toLowerCase u \<noteq> ''__defineGetter__''" by (rule no [of "CHR ''G''"]) simp_all
  moreover have "toLowerCase u \<noteq> ''__defineSetter__''" by (rule no [of "CHR ''S''"]) simp_all
  moreover have "toLowerCase u \<noteq> ''hasOwnProperty''" by (rule no [of "CHR ''O''"]) simp_all
  moreover have "toLowerCase u \<noteq> ''__lookupGetter__''" by (rule no [of "CHR ''G''"]) simp_all
  moreover have "toLowerCase u \<noteq> ''__lookupSetter__''" by (rule no [of "CHR ''S''"]) simp_all
  moreover have "toLowerCase u \<noteq> ''isPrototypeOf''" by (rule no [of "CHR ''P''"]) simp_all
  moreover have "toLowerCase u \<noteq> ''propertyIsEnumerable''" by (rule no [of "CHR ''I''"]) simp_all
  moreover have "toLowerCase u \<noteq> ''toString''" by (rule no [of "CHR ''S''"]) simp_all
  moreover have "toLowerCase u \<noteq> ''valueOf''" by (rule no [of "CHR ''O''"]) simp_all
  moreover have "toLowerCase u \<noteq> ''toLocaleString''" by (rule no [of "CHR ''L''"]) simp_all
  ultimately show ?thesis
    by (auto simp: Object_prototype_names_def)
qed

lemma known_aToken_proto: "known_aToken 84532 ''__proto__'' = Some (Inherited ''__proto__'')"
  by (simp add: known_aToken_def KNOWN_ATOKEN_ADDRESSES_def toLowerCase_def toLowerCase_char_def
      get_property_def truthy_def Object_prototype_names_def)

lemma known_aToken_None_iff:
  "known_aToken cid usdc = None \<longleftrightarrow>
     (case map_of KNOWN_ATOKEN_ADDRESSES cid of
        None \<Rightarrow> True
      | Some chainAddresses \<Rightarrow>
          map_of chainAddresses (toLowerCase usdc) = None
          \<and> toLowerCase usdc \<noteq> ''constructor'' \<and> toLowerCase usdc \<noteq> ''__proto__'')"
proof (cases "map_of KNOWN_ATOKEN_ADDRESSES cid")
  case None
  then show ?thesis by (simp add: known_aToken_def)
next
  case (Some tbl)
  have ne: "s \<noteq> []" if "map_of tbl k = Some s" for k s
    using Some that by (auto simp: KNOWN_ATOKEN_ADDRESSES_def split: if_splits)
  show ?thesis
  proof (cases "map_of tbl (toLowerCase usdc)")
    case own: (Some s)
    with ne have "s \<noteq> []" by blast
    with Some own show ?thesis
      by (simp add: known_aToken_def get_property_def truthy_def)
  next
    case None
    with Some show ?thesis
      using inherited_lower_names [of usdc]
      by (simp add: known_aToken_def get_property_def truthy_def)
  qed
qed





section \<open>Reading a balance\<close>

lemma io_catch_rethrow: "io_catch m (\<lambda>error. io_throw error) = m"
  by (rule ext) (simp add: io_defs split: prod.splits sum.splits)

lemma bigint_toString_0: "bigint_toString 0 = ''0''"
  by (simp add: bigint_toString_def dec_digits.simps digit_char_def)

lemma fetchVaultUSDCBalance_unfold:
  "fetchVaultUSDCBalance w cfg v c =
     ([Call_balanceOf (rpcUrl cfg) (usdcAddress cfg) v], c,
      case balanceOf w (rpcUrl cfg) (usdcAddress cfg) v of
        Inr b \<Rightarrow> Inr (bigint_toString b)
      | Inl e \<Rightarrow>
          if err_code e = Some ''BAD_DATA'' then Inr ''0''
          else Inl (new_Error (''Failed to fetch USDC balance on '' @ ChainConfig.name cfg @ '': ''
                      @ error_toString e)))"
  by (simp add: fetchVaultUSDCBalance_def io_defs bigint_toString_0 split: sum.splits)

lemma fetchVaultATokenBalance_unfold:
  "fetchVaultATokenBalance w cfg v c =
     (case getATokenAddress w cfg (usdcAddress cfg) c of
        (t, c', Inl e) \<Rightarrow>
          (t, c', Inl (new_Error (''Failed to fetch vault aToken balance on '' @ ChainConfig.name cfg
                         @ '': '' @ error_toString e)))
      | (t, c', Inr (Inherited k)) \<Rightarrow>
          (t, c', Inl (new_Error (''Failed to fetch vault aToken balance on '' @ ChainConfig.name cfg
                         @ '': '' @ error_toString (Contract_refused w (Inherited k)))))
      | (t, c', Inr (JsString a)) \<Rightarrow>
          (t @ [Call_balanceOf (rpcUrl cfg) a v], c',
           case balanceOf w (rpcUrl cfg) a v of
             Inr b \<Rightarrow> Inr (bigint_toString b)
           | Inl e \<Rightarrow>
               if err_code e = Some ''BAD_DATA'' then Inr ''0''
               else Inl (new_Error (''Failed to fetch vault aToken balance on ''
                           @ ChainConfig.name cfg @ '': '' @ error_toString e))))"
  by (simp add: fetchVaultATokenBalance_def io_defs new_Contract_def bigint_toString_0
      split: sum.splits prod.splits js_value.splits)

lemma fetchATokenBalance_unfold:
  "fetchATokenBalance w cfg agent c =
     (case getATokenAddress w cfg (usdcAddress cfg) c of
        (t, c', Inl e) \<Rightarrow>
          (t, c', Inl (new_Error (''Failed to fetch aToken balance on '' @ ChainConfig.name cfg
                         @ '': '' @ error_toString e)))
      | (t, c', Inr (Inherited k)) \<Rightarrow>
          (t, c', Inl (new_Error (''Failed to fetch aToken balance on '' @ ChainConfig.name cfg
                         @ '': '' @ error_toString (Contract_refused w (Inherited k)))))
      | (t, c', Inr (JsString a)) \<Rightarrow>
          (case (case balanceOf w (rpcUrl cfg) a agent of
                   Inr b \<Rightarrow> Inr b
                 | Inl e \<Rightarrow> if err_code e = Some ''BAD_DATA'' then Inr 0 else Inl e) of
             Inl e \<Rightarrow>
               (t @ [Call_balanceOf (rpcUrl cfg) a agent], c',
                Inl (new_Error (''Failed to fetch aToken balance on '' @ ChainConfig.name cfg
                       @ '': '' @ error_toString e)))
           | Inr b \<Rightarrow>
               (t @ [Call_balanceOf (rpcUrl cfg) a agent, Call_getBlockNumber (rpcUrl cfg)], c',
                case getBlockNumber w (rpcUrl cfg) of
                  Inl e \<Rightarrow>
                    Inl (new_Error (''Failed to fetch aToken balance on '' @ ChainConfig.name cfg
                           @ '': '' @ error_toString e))
                | Inr bn \<Rightarrow>
                    Inr \<lparr>ChainBalance.chainId = ChainConfig.chainId cfg,
                         chainName = ChainConfig.name cfg,
                         aTokenBalance = bigint_toString b,
                         aTokenAddress = a,
                         blockNumber = bn,
                         timestamp = Date_now w div 1000\<rparr>)))"
  by (simp add: fetchATokenBalance_def io_defs new_Contract_def
      split: sum.splits prod.splits js_value.splits)

text \<open>
  Claim C8. For every chain configuration and holder: when the \<open>balanceOf\<close> call of a
  balance reader fails with the code \<open>BAD_DATA\<close> (no return data), the reader goes on
  with the balance 0 and returns it as \<open>''0''\<close>, not an error; when the call fails
  in any other way the reader stops there, makes no further call and fails with an
  error that carries the chain's name. Stated for \<open>fetchVaultUSDCBalance\<close> and for
  \<open>fetchATokenBalance\<close> once the token address is resolved (to a string, which is
  what a contract is made of).
\<close>

theorem balance_read_empty_data_is_zero:
  "(balanceOf w (rpcUrl cfg) (usdcAddress cfg) holder = Inl e \<and> err_code e = Some ''BAD_DATA'' \<longrightarrow>
      fetchVaultUSDCBalance w cfg holder c
        = ([Call_balanceOf (rpcUrl cfg) (usdcAddress cfg) holder], c, Inr ''0''))
   \<and> (balanceOf w (rpcUrl cfg) (usdcAddress cfg) holder = Inl e \<and> err_code e \<noteq> Some ''BAD_DATA'' \<longrightarrow>
      fetchVaultUSDCBalance w cfg holder c
        = ([Call_balanceOf (rpcUrl cfg) (usdcAddress cfg) holder], c,
           Inl (new_Error (''Failed to fetch USDC balance on '' @ ChainConfig.name cfg @ '': ''
                  @ error_toString e))))
   \<and> (getATokenAddress w cfg (usdcAddress cfg) c = (t, c', Inr (JsString a))
       \<and> balanceOf w (rpcUrl cfg) a holder = Inl e \<and> err_code e = Some ''BAD_DATA''
       \<and> getBlockNumber w (rpcUrl cfg) = Inr bn \<longrightarrow>
      fetchATokenBalance w cfg holder c
        = (t @ [Call_balanceOf (rpcUrl cfg) a holder, Call_getBlockNumber (rpcUrl cfg)], c',
           Inr \<lparr>ChainBalance.chainId = ChainConfig.chainId cfg,
                chainName = ChainConfig.name cfg,
                aTokenBalance = ''0'',
                aTokenAddress = a,
                blockNumber = bn,
                timestamp = Date_now w div 1000\<rparr>))
   \<and> (getATokenAddress w cfg (usdcAddress cfg) c = (t, c', Inr (JsString a))
       \<and> balanceOf w (rpcUrl cfg) a holder = Inl e \<and> err_code e \<noteq> Some ''BAD_DATA'' \<longrightarrow>
      fetchATokenBalance w cfg holder c
        = (t @ [Call_balanceOf (rpcUrl cfg) a holder], c',
           Inl (new_Error (''Failed to fetch aToken balance on '' @ ChainConfig.name cfg @ '': ''
                  @ error_toString e))))"
  by (simp add: fetchVaultUSDCBalance_unfold fetchATokenBalance_unfold bigint_toString_0)

theorem balance_read_empty_data_is_zero_witness:
  "balanceOf empty_data_world (rpcUrl baseSepolia) (usdcAddress baseSepolia)
       ''0x773035EABdA16B5416B26E12156483C6B6F56451'' = Inl bad_data
   \<and> err_code bad_data = Some ''BAD_DATA''
   \<and> fetchVaultUSDCBalance empty_data_world baseSepolia
         ''0x773035EABdA16B5416B26E12156483C6B6F56451'' Map.empty
       = ([Call_balanceOf ''https://sepolia.base.org'' ''0x036CbD53842c5426634e7929541eC2318f3dCF7e''
             ''0x773035EABdA16B5416B26E12156483C6B6F56451''], Map.empty, Inr ''0'')
   \<and> balanceOf offline_world (rpcUrl baseSepolia) (usdcAddress baseSepolia)
       ''0x773035EABdA16B5416B26E12156483C6B6F56451'' = Inl rpc_down
   \<and> err_code rpc_down \<noteq> Some ''BAD_DATA''
   \<and> fetchVaultUSDCBalance offline_world baseSepolia
         ''0x773035EABdA16B5416B26E12156483C6B6F56451'' Map.empty
       = ([Call_balanceOf ''https://sepolia.base.org'' ''0x036CbD53842c5426634e7929541eC2318f3dCF7e''
             ''0x773035EABdA16B5416B26E12156483C6B6F56451''], Map.empty,
          Inl (new_Error ''Failed to fetch USDC balance on Base Sepolia: Error: could not detect network''))
   \<and> snd (snd (fetchATokenBalance empty_data_world baseSepolia
         ''0x20f2747bbc52453ac0774b5b2fe0e28dc6637f30'' Map.empty))
       = Inr \<lparr>ChainBalance.chainId = 84532, chainName = ''Base Sepolia'', aTokenBalance = ''0'',
              aTokenAddress = ''0x4e65fE4DbA92790696d040ac24Aa414708F5c0AB'',
              blockNumber = 7654321, timestamp = 1700000000\<rparr>
   \<and> snd (snd (fetchATokenBalance offline_world baseSepolia
         ''0x20f2747bbc52453ac0774b5b2fe0e28dc6637f30'' Map.empty))
       = Inl (new_Error ''Failed to fetch aToken balance on Base Sepolia: Error: could not detect network'')"
proof -
  let ?vault = "''0x773035EABdA16B5416B26E12156483C6B6F56451''"
  let ?agent = "''0x20f2747bbc52453ac0774b5b2fe0e28dc6637f30''"
  let ?A = "''0x4e65fE4DbA92790696d040ac24Aa414708F5c0AB''"
  let ?t = "[Call_getReserveData (rpcUrl baseSepolia) (aavePoolAddress baseSepolia) (usdcAddress baseSepolia)]"
  let ?c' = "[cacheKey_of baseSepolia (usdcAddress baseSepolia) \<mapsto> JsString ?A]"
  have b1: "balanceOf empty_data_world u x h = Inl bad_data" for u x h
    by (simp add: empty_data_world_def)
  have b2: "balanceOf offline_world u x h = Inl rpc_down" for u x h
    by (simp add: offline_world_def)
  have c1: "err_code bad_data = Some ''BAD_DATA''" by (simp add: bad_data_def)
  have c2: "err_code rpc_down \<noteq> Some ''BAD_DATA''" by (simp add: rpc_down_def)
  have blk: "getBlockNumber empty_data_world u = Inr 7654321" for u
    by (simp add: empty_data_world_def)
  have known: "known_aToken (ChainConfig.chainId baseSepolia) (usdcAddress baseSepolia) = Some (JsString ?A)"
    by (simp add: baseSepolia_eq known_aToken_base)
  have g1: "getATokenAddress empty_data_world baseSepolia (usdcAddress baseSepolia) Map.empty
      = (?t, ?c', Inr (JsString ?A))"
    by (simp add: getATokenAddress_unfold known empty_data_world_def offline_world_def)
  have g2: "getATokenAddress offline_world baseSepolia (usdcAddress baseSepolia) Map.empty
      = (?t, ?c', Inr (JsString ?A))"
    by (simp add: getATokenAddress_unfold known offline_world_def)
  have msg: "error_toString rpc_down = ''Error: could not detect network''"
    by (simp add: error_toString_def rpc_down_def)
  have now: "Date_now empty_data_world div 1000 = 1700000000"
    by (simp add: empty_data_world_def offline_world_def)
  note r1 = balance_read_empty_data_is_zero
    [where w = empty_data_world and cfg = baseSepolia and holder = ?vault and e = bad_data
       and c = Map.empty]
  note r2 = balance_read_empty_data_is_zero
    [where w = offline_world and cfg = baseSepolia and holder = ?vault and e = rpc_down
       and c = Map.empty]
  note r3 = balance_read_empty_data_is_zero
    [where w = empty_data_world and cfg = baseSepolia and holder = ?agent and e = bad_data
       and c = Map.empty and t = ?t and c' = ?c' and a = ?A and bn = 7654321]
  note r4 = balance_read_empty_data_is_zero
    [where w = offline_world and cfg = baseSepolia and holder = ?agent and e = rpc_down
       and c = Map.empty and t = ?t and c' = ?c' and a = ?A]
  from r1 b1 c1 have u1: "fetchVaultUSDCBalance empty_data_world baseSepolia ?vault Map.empty
      = ([Call_balanceOf (rpcUrl baseSepolia) (usdcAddress baseSepolia) ?vault], Map.empty, Inr ''0'')"
    by blast
  from r2 b2 c2 have u2: "fetchVaultUSDCBalance offline_world baseSepolia ?vault Map.empty
      = ([Call_balanceOf (rpcUrl baseSepolia) (usdcAddress baseSepolia) ?vault], Map.empty,
         Inl (new_Error (''Failed to fetch USDC balance on '' @ ChainConfig.name baseSepolia @ '': ''
                @ error_toString rpc_down)))"
    by blast
  from r3 g1 b1 c1 blk have a1: "snd (snd (fetchATokenBalance empty_data_world baseSepolia ?agent Map.empty))
      = Inr \<lparr>ChainBalance.chainId = ChainConfig.chainId baseSepolia,
              chainName = ChainConfig.name baseSepolia, aTokenBalance = ''0'',
              aTokenAddress = ?A, blockNumber = 7654321,
              timestamp = Date_now empty_data_world div 1000\<rparr>"
    by simp
  from r4 g2 b2 c2 have a2: "snd (snd (fetchATokenBalance offline_world baseSepolia ?agent Map.empty))
      = Inl (new_Error (''Failed to fetch aToken balance on '' @ ChainConfig.name baseSepolia @ '': ''
               @ error_toString rpc_down))"
    by simp
  from u1 u2 a1 a2 b1 b2 c1 c2 show ?thesis
    by (simp add: baseSepolia_eq msg now)
qed

section \<open>\<open>Promise.all\<close>\<close>

lemma length_branch_results: "length (branch_results w bs c) = length bs"
  by (simp add: branch_results_def)

lemma nth_branch_results:
  "i < length bs \<Longrightarrow> branch_results w bs c ! i = snd (snd ((bs ! i) (cache_seen w i c)))"
  by (simp add: branch_results_def nth_enumerate_eq)

lemma Promise_all_result:
  "snd (snd (Promise_all w bs c)) =
     (if list_all (\<lambda>r. \<not> isl r) (branch_results w bs c)
      then Inr (map projr (branch_results w bs c))
      else Inl (let errors = map projl (filter isl (branch_results w bs c));
                    k = first_rejection w errors
                in if k < length errors then errors ! k else hd errors))"
  by (simp add: Promise_all_def branch_results_def Let_def comp_def case_prod_unfold)

lemma all_Inr_iff: "list_all (\<lambda>r. \<not> isl r) rs \<and> map projr rs = vs \<longleftrightarrow> rs = map Inr vs"
proof (induction rs arbitrary: vs)
  case Nil
  then show ?case by auto
next
  case (Cons r rs)
  show ?case
  proof (cases vs)
    case Nil
    then show ?thesis by auto
  next
    case (Cons v vs')
    with Cons.IH [of vs'] show ?thesis
      by (cases r) auto
  qed
qed

lemma Promise_all_Inr_iff:
  "snd (snd (Promise_all w bs c)) = Inr vs \<longleftrightarrow> branch_results w bs c = map Inr vs"
  using all_Inr_iff [of "branch_results w bs c" vs]
  by (auto simp: Promise_all_result)

lemma Promise_all_isl_iff:
  "isl (snd (snd (Promise_all w bs c))) \<longleftrightarrow> (\<exists>r \<in> set (branch_results w bs c). isl r)"
  by (simp add: Promise_all_result list_all_iff)

lemma Promise_all_fails:
  "i < length bs \<Longrightarrow> isl (snd (snd ((bs ! i) (cache_seen w i c)))) \<Longrightarrow>
   isl (snd (snd (Promise_all w bs c)))"
  unfolding Promise_all_isl_iff
  by (metis length_branch_results nth_branch_results nth_mem)

lemma Promise_all_complete:
  assumes "snd (snd (Promise_all w bs c)) = Inr vs"
  shows "length vs = length bs"
    and "i < length bs \<Longrightarrow> snd (snd ((bs ! i) (cache_seen w i c))) = Inr (vs ! i)"
proof -
  from assms have eq: "branch_results w bs c = map Inr vs"
    by (simp add: Promise_all_Inr_iff)
  from arg_cong [OF eq, of length] show len: "length vs = length bs"
    by (simp add: length_branch_results)
  show "snd (snd ((bs ! i) (cache_seen w i c))) = Inr (vs ! i)" if "i < length bs"
    using that eq len nth_branch_results [of i bs w c] by simp
qed

lemma Promise_all_trace:
  "fst (Promise_all w bs c) = concat (map (\<lambda>(i, b). fst (b (cache_seen w i c))) (enumerate 0 bs))"
  by (simp add: Promise_all_def Let_def comp_def case_prod_unfold)

section \<open>The balance of a vault\<close>

lemma fetchVaultBalance_unfold:
  "fetchVaultBalance w cfg v c =
     (case getBlockNumber w (rpcUrl cfg) of
        Inl e \<Rightarrow>
          ([Call_getBlockNumber (rpcUrl cfg)], c,
           Inl (new_Error (''Failed to fetch vault balance on '' @ ChainConfig.name cfg @ '': ''
                  @ error_toString e)))
      | Inr bn \<Rightarrow>
          (case totalAssets w (rpcUrl cfg) v of
             Inr ta \<Rightarrow>
               ([Call_getBlockNumber (rpcUrl cfg), Call_totalAssets (rpcUrl cfg) v], c,
                Inr \<lparr>VaultBalance.chainId = ChainConfig.chainId cfg,
                     chainName = ChainConfig.name cfg,
                     vaultAddress = v,
                     usdcBalance = ''0'',
                     aTokenBalance = bigint_toString ta,
                     blockNumber = bn,
                     timestamp = Date_now w div 1000\<rparr>)
           | Inl e0 \<Rightarrow>
               (case Promise_all w [fetchVaultUSDCBalance w cfg v, fetchVaultATokenBalance w cfg v] c of
                  (t, c', Inl e) \<Rightarrow>
                    ([Call_getBlockNumber (rpcUrl cfg), Call_totalAssets (rpcUrl cfg) v] @ t, c',
                     Inl (new_Error (''Failed to fetch vault balance on '' @ ChainConfig.name cfg
                            @ '': '' @ error_toString e)))
                | (t, c', Inr both) \<Rightarrow>
                    ([Call_getBlockNumber (rpcUrl cfg), Call_totalAssets (rpcUrl cfg) v] @ t, c',
                     Inr \<lparr>VaultBalance.chainId = ChainConfig.chainId cfg,
                          chainName = ChainConfig.name cfg,
                          vaultAddress = v,
                          usdcBalance = both ! 0,
                          aTokenBalance = both ! 1,
                          blockNumber = bn,
                          timestamp = Date_now w div 1000\<rparr>))))"
  by (simp add: fetchVaultBalance_def io_defs split: sum.splits prod.splits)

lemma Promise_all_pair_trace:
  "fst (Promise_all w [m1, m2] c) = fst (m1 (cache_seen w 0 c)) @ fst (m2 (cache_seen w 1 c))"
  by (simp add: Promise_all_trace)

lemma Promise_all_pair_ok:
  "snd (snd (m1 (cache_seen w 0 c))) = Inr x \<Longrightarrow> snd (snd (m2 (cache_seen w 1 c))) = Inr y \<Longrightarrow>
   snd (snd (Promise_all w [m1, m2] c)) = Inr [x, y]"
  by (simp add: Promise_all_Inr_iff branch_results_def)

lemma fetchVaultBalance_fallback:
  assumes "getBlockNumber w (rpcUrl cfg) = Inr bn" "totalAssets w (rpcUrl cfg) v = Inl e"
  shows "fst (fetchVaultBalance w cfg v c)
      = [Call_getBlockNumber (rpcUrl cfg), Call_totalAssets (rpcUrl cfg) v]
        @ fst (Promise_all w [fetchVaultUSDCBalance w cfg v, fetchVaultATokenBalance w cfg v] c)"
    and "snd (snd (Promise_all w [fetchVaultUSDCBalance w cfg v, fetchVaultATokenBalance w cfg v] c))
           = Inr both \<Longrightarrow>
         snd (snd (fetchVaultBalance w cfg v c))
           = Inr \<lparr>VaultBalance.chainId = ChainConfig.chainId cfg,
                  chainName = ChainConfig.name cfg,
                  vaultAddress = v,
                  usdcBalance = both ! 0,
                  aTokenBalance = both ! 1,
                  blockNumber = bn,
                  timestamp = Date_now w div 1000\<rparr>"
    and "isl (snd (snd (Promise_all w [fetchVaultUSDCBalance w cfg v, fetchVaultATokenBalance w cfg v] c)))
           \<Longrightarrow> isl (snd (snd (fetchVaultBalance w cfg v c)))"
  using assms by (auto simp: fetchVaultBalance_unfold split: sum.splits prod.splits)

lemma balanceOf_not_in_fallback_prefix:
  "Call_balanceOf u h a \<notin> set [Call_getBlockNumber x, Call_totalAssets y z]"
  by simp

text \<open>
  Claim C10. For every configured vault, after the block number is read the first call
  of \<open>fetchVaultBalance\<close> is the vault's \<open>totalAssets\<close> accessor; when it succeeds, no
  other call is made and the returned balance reports the whole value as invested
  (\<open>aTokenBalance\<close> is \<open>totalAssets\<close>) and \<open>''0''\<close> as idle; a \<open>balanceOf\<close> query is made
  only when the accessor call failed, and then the idle USDC and the invested aToken
  balances are both queried and reported.
\<close>

theorem fetchVaultBalance_prefers_totalAssets:
  "(getBlockNumber w (rpcUrl cfg) = Inr bn \<and> totalAssets w (rpcUrl cfg) v = Inr ta \<longrightarrow>
      fetchVaultBalance w cfg v c
        = ([Call_getBlockNumber (rpcUrl cfg), Call_totalAssets (rpcUrl cfg) v], c,
           Inr \<lparr>VaultBalance.chainId = ChainConfig.chainId cfg,
                chainName = ChainConfig.name cfg,
                vaultAddress = v,
                usdcBalance = ''0'',
                aTokenBalance = bigint_toString ta,
                blockNumber = bn,
                timestamp = Date_now w div 1000\<rparr>))
   \<and> (getBlockNumber w (rpcUrl cfg) = Inr bn \<longrightarrow>
        take 2 (fst (fetchVaultBalance w cfg v c))
          = [Call_getBlockNumber (rpcUrl cfg), Call_totalAssets (rpcUrl cfg) v])
   \<and> (Call_balanceOf u h a \<in> set (fst (fetchVaultBalance w cfg v c)) \<longrightarrow>
        isl (totalAssets w (rpcUrl cfg) v))
   \<and> (getBlockNumber w (rpcUrl cfg) = Inr bn \<and> totalAssets w (rpcUrl cfg) v = Inl e \<longrightarrow>
        fst (fetchVaultBalance w cfg v c)
          = [Call_getBlockNumber (rpcUrl cfg), Call_totalAssets (rpcUrl cfg) v]
            @ fst (fetchVaultUSDCBalance w cfg v (cache_seen w 0 c))
            @ fst (fetchVaultATokenBalance w cfg v (cache_seen w 1 c))
        \<and> (snd (snd (fetchVaultUSDCBalance w cfg v (cache_seen w 0 c))) = Inr ub
             \<and> snd (snd (fetchVaultATokenBalance w cfg v (cache_seen w 1 c))) = Inr ab \<longrightarrow>
            snd (snd (fetchVaultBalance w cfg v c))
              = Inr \<lparr>VaultBalance.chainId = ChainConfig.chainId cfg,
                     chainName = ChainConfig.name cfg,
                     vaultAddress = v,
                     usdcBalance = ub,
                     aTokenBalance = ab,
                     blockNumber = bn,
                     timestamp = Date_now w div 1000\<rparr>))"
proof (intro conjI impI)
  assume "getBlockNumber w (rpcUrl cfg) = Inr bn \<and> totalAssets w (rpcUrl cfg) v = Inr ta"
  then show "fetchVaultBalance w cfg v c
        = ([Call_getBlockNumber (rpcUrl cfg), Call_totalAssets (rpcUrl cfg) v], c,
           Inr \<lparr>VaultBalance.chainId = ChainConfig.chainId cfg,
                chainName = ChainConfig.name cfg,
                vaultAddress = v,
                usdcBalance = ''0'',
                aTokenBalance = bigint_toString ta,
                blockNumber = bn,
                timestamp = Date_now w div 1000\<rparr>)"
    by (simp add: fetchVaultBalance_unfold)
next
  assume "getBlockNumber w (rpcUrl cfg) = Inr bn"
  then show "take 2 (fst (fetchVaultBalance w cfg v c))
          = [Call_getBlockNumber (rpcUrl cfg), Call_totalAssets (rpcUrl cfg) v]"
    by (simp add: fetchVaultBalance_unfold split: sum.splits prod.splits)
next
  assume "Call_balanceOf u h a \<in> set (fst (fetchVaultBalance w cfg v c))"
  then show "isl (totalAssets w (rpcUrl cfg) v)"
    by (auto simp: fetchVaultBalance_unfold split: sum.splits prod.splits)
next
  assume h: "getBlockNumber w (rpcUrl cfg) = Inr bn \<and> totalAssets w (rpcUrl cfg) v = Inl e"
  then show "fst (fetchVaultBalance w cfg v c)
          = [Call_getBlockNumber (rpcUrl cfg), Call_totalAssets (rpcUrl cfg) v]
            @ fst (fetchVaultUSDCBalance w cfg v (cache_seen w 0 c))
            @ fst (fetchVaultATokenBalance w cfg v (cache_seen w 1 c))"
    by (simp add: fetchVaultBalance_fallback(1) Promise_all_pair_trace)
  assume "snd (snd (fetchVaultUSDCBalance w cfg v (cache_seen w 0 c))) = Inr ub
             \<and> snd (snd (fetchVaultATokenBalance w cfg v (cache_seen w 1 c))) = Inr ab"
  with h show "snd (snd (fetchVaultBalance w cfg v c))
              = Inr \<lparr>VaultBalance.chainId = ChainConfig.chainId cfg,
                     chainName = ChainConfig.name cfg,
                     vaultAddress = v,
                     usdcBalance = ub,
                     aTokenBalance = ab,
                     blockNumber = bn,
                     timestamp = Date_now w div 1000\<rparr>"
    using fetchVaultBalance_fallback(2) [where w = w and cfg = cfg and bn = bn and v = v and e = e
        and both = "[ub, ab]" and c = c]
    by (simp add: Promise_all_pair_ok)
qed

lemma bigint_toString_2500000000: "bigint_toString 2500000000 = ''2500000000''"
  by (simp add: bigint_toString_def dec_digits.simps digit_char_def)

lemma worlds_see_cache:
  "cache_seen offline_world i c = c" "cache_seen empty_data_world i c = c"
  "cache_seen erc4626_world i c = c" "cache_seen optimism_down_world i c = c"
  by (simp_all add: offline_world_def empty_data_world_def erc4626_world_def optimism_down_world_def)

theorem fetchVaultBalance_prefers_totalAssets_witness:
  "getBlockNumber erc4626_world (rpcUrl baseSepolia) = Inr 7654321
   \<and> totalAssets erc4626_world (rpcUrl baseSepolia) ''0x773035EABdA16B5416B26E12156483C6B6F56451''
        = Inr 2500000000
   \<and> fetchVaultBalance erc4626_world baseSepolia ''0x773035EABdA16B5416B26E12156483C6B6F56451'' Map.empty
        = ([Call_getBlockNumber ''https://sepolia.base.org'',
            Call_totalAssets ''https://sepolia.base.org'' ''0x773035EABdA16B5416B26E12156483C6B6F56451''],
           Map.empty,
           Inr \<lparr>VaultBalance.chainId = 84532, chainName = ''Base Sepolia'',
                vaultAddress = ''0x773035EABdA16B5416B26E12156483C6B6F56451'',
                usdcBalance = ''0'', aTokenBalance = ''2500000000'',
                blockNumber = 7654321, timestamp = 1700000000\<rparr>)
   \<and> getBlockNumber empty_data_world (rpcUrl baseSepolia) = Inr 7654321
   \<and> totalAssets empty_data_world (rpcUrl baseSepolia) ''0x773035EABdA16B5416B26E12156483C6B6F56451''
        = Inl rpc_down
   \<and> fst (fetchVaultBalance empty_data_world baseSepolia
             ''0x773035EABdA16B5416B26E12156483C6B6F56451'' Map.empty)
        = [Call_getBlockNumber ''https://sepolia.base.org'',
           Call_totalAssets ''https://sepolia.base.org'' ''0x773035EABdA16B5416B26E12156483C6B6F56451'',
           Call_balanceOf ''https://sepolia.base.org'' ''0x036CbD53842c5426634e7929541eC2318f3dCF7e''
             ''0x773035EABdA16B5416B26E12156483C6B6F56451'',
           Call_getReserveData ''https://sepolia.base.org'' ''0x6a9d64f93db660eacb2b6e9424792c630cda87d8''
             ''0x036CbD53842c5426634e7929541eC2318f3dCF7e'',
           Call_balanceOf ''https://sepolia.base.org'' ''0x4e65fE4DbA92790696d040ac24Aa414708F5c0AB''
             ''0x773035EABdA16B5416B26E12156483C6B6F56451'']
   \<and> snd (snd (fetchVaultBalance empty_data_world baseSepolia
                  ''0x773035EABdA16B5416B26E12156483C6B6F56451'' Map.empty))
        = Inr \<lparr>VaultBalance.chainId = 84532, chainName = ''Base Sepolia'',
               vaultAddress = ''0x773035EABdA16B5416B26E12156483C6B6F56451'',
               usdcBalance = ''0'', aTokenBalance = ''0'',
               blockNumber = 7654321, timestamp = 1700000000\<rparr>"
proof -
  let ?v = "''0x773035EABdA16B5416B26E12156483C6B6F56451''"
  let ?A = "''0x4e65fE4DbA92790696d040ac24Aa414708F5c0AB''"
  have e1: "getBlockNumber erc4626_world (rpcUrl baseSepolia) = Inr 7654321"
    and e2: "totalAssets erc4626_world (rpcUrl baseSepolia) ?v = Inr 2500000000"
    and e3: "Date_now erc4626_world div 1000 = 1700000000"
    by (simp_all add: erc4626_world_def offline_world_def)
  have d1: "getBlockNumber empty_data_world (rpcUrl baseSepolia) = Inr 7654321"
    and d2: "totalAssets empty_data_world (rpcUrl baseSepolia) ?v = Inl rpc_down"
    and d3: "Date_now empty_data_world div 1000 = 1700000000"
    by (simp_all add: empty_data_world_def offline_world_def)
  have known: "known_aToken (ChainConfig.chainId baseSepolia) (usdcAddress baseSepolia) = Some (JsString ?A)"
    by (simp add: baseSepolia_eq known_aToken_base)
  have u: "fetchVaultUSDCBalance empty_data_world baseSepolia ?v Map.empty
      = ([Call_balanceOf (rpcUrl baseSepolia) (usdcAddress baseSepolia) ?v], Map.empty, Inr ''0'')"
    by (simp add: fetchVaultUSDCBalance_unfold empty_data_world_def bad_data_def)
  have g: "getATokenAddress empty_data_world baseSepolia (usdcAddress baseSepolia) Map.empty
      = ([Call_getReserveData (rpcUrl baseSepolia) (aavePoolAddress baseSepolia) (usdcAddress baseSepolia)],
         [cacheKey_of baseSepolia (usdcAddress baseSepolia) \<mapsto> JsString ?A], Inr (JsString ?A))"
    by (simp add: getATokenAddress_unfold known empty_data_world_def offline_world_def)
  have a: "fetchVaultATokenBalance empty_data_world baseSepolia ?v Map.empty
      = ([Call_getReserveData (rpcUrl baseSepolia) (aavePoolAddress baseSepolia) (usdcAddress baseSepolia),
          Call_balanceOf (rpcUrl baseSepolia) ?A ?v],
         [cacheKey_of baseSepolia (usdcAddress baseSepolia) \<mapsto> JsString ?A], Inr ''0'')"
    by (simp add: fetchVaultATokenBalance_unfold g) (simp add: empty_data_world_def bad_data_def)
  note r1 = fetchVaultBalance_prefers_totalAssets
    [where w = erc4626_world and cfg = baseSepolia and v = ?v and c = Map.empty
       and bn = 7654321 and ta = 2500000000]
  note r2 = fetchVaultBalance_prefers_totalAssets
    [where w = empty_data_world and cfg = baseSepolia and v = ?v and c = Map.empty
       and bn = 7654321 and e = rpc_down and ub = "''0''" and ab = "''0''"]
  from r1 e1 e2 have f1: "fetchVaultBalance erc4626_world baseSepolia ?v Map.empty
        = ([Call_getBlockNumber (rpcUrl baseSepolia), Call_totalAssets (rpcUrl baseSepolia) ?v], Map.empty,
           Inr \<lparr>VaultBalance.chainId = ChainConfig.chainId baseSepolia,
                chainName = ChainConfig.name baseSepolia, vaultAddress = ?v,
                usdcBalance = ''0'', aTokenBalance = bigint_toString 2500000000,
                blockNumber = 7654321, timestamp = Date_now erc4626_world div 1000\<rparr>)"
    by blast
  from r2 d1 d2 have f2: "fst (fetchVaultBalance empty_data_world baseSepolia ?v Map.empty)
          = [Call_getBlockNumber (rpcUrl baseSepolia), Call_totalAssets (rpcUrl baseSepolia) ?v]
            @ fst (fetchVaultUSDCBalance empty_data_world baseSepolia ?v (cache_seen empty_data_world 0 Map.empty))
            @ fst (fetchVaultATokenBalance empty_data_world baseSepolia ?v (cache_seen empty_data_world 1 Map.empty))"
    by blast
  from r2 d1 d2 u a have f3: "snd (snd (fetchVaultBalance empty_data_world baseSepolia ?v Map.empty))
              = Inr \<lparr>VaultBalance.chainId = ChainConfig.chainId baseSepolia,
                     chainName = ChainConfig.name baseSepolia, vaultAddress = ?v,
                     usdcBalance = ''0'', aTokenBalance = ''0'',
                     blockNumber = 7654321, timestamp = Date_now empty_data_world div 1000\<rparr>"
    by (simp add: worlds_see_cache)
  from f2 u a have f2': "fst (fetchVaultBalance empty_data_world baseSepolia ?v Map.empty)
          = [Call_getBlockNumber (rpcUrl baseSepolia), Call_totalAssets (rpcUrl baseSepolia) ?v,
             Call_balanceOf (rpcUrl baseSepolia) (usdcAddress baseSepolia) ?v,
             Call_getReserveData (rpcUrl baseSepolia) (aavePoolAddress baseSepolia) (usdcAddress baseSepolia),
             Call_balanceOf (rpcUrl baseSepolia) ?A ?v]"
    by (simp add: worlds_see_cache)
  from e1 e2 d1 d2 f1 f2' f3 show ?thesis
    by (simp add: e3 d3 bigint_toString_2500000000 baseSepolia_eq)
qed

section \<open>The fan-outs fail as a whole\<close>

lemma chain_branch:
  "i < length (getAllChains cfgs) \<Longrightarrow>
   (map (\<lambda>chain. io_catch (fetchATokenBalance w chain agent) (\<lambda>error. io_throw error))
      (getAllChains cfgs) ! i) = fetchATokenBalance w (getAllChains cfgs ! i) agent"
  by (simp add: io_catch_rethrow)

lemma fetchVaultBalances_branches:
  "fetchVaultBalances w cfgs = Promise_all w (map (vault_branch w cfgs) (getAllVaults cfgs))"
  by (simp add: fetchVaultBalances_def vault_branch_def [abs_def] io_catch_rethrow Let_def
      cong: option.case_cong)

lemma fetchChainBalances_branches:
  "fetchChainBalances w cfgs agent
     = Promise_all w (map (\<lambda>chain. fetchATokenBalance w chain agent) (getAllChains cfgs))"
  by (simp add: fetchChainBalances_def io_catch_rethrow Let_def)

lemma vault_branch_isl:
  "isl (snd (snd (vault_branch w cfgs v c'))) \<longleftrightarrow>
     (case getChainById cfgs (VaultRef.chainId v) of
        None \<Rightarrow> True
      | Some chain \<Rightarrow> isl (snd (snd (fetchVaultBalance w chain (VaultRef.vaultAddress v) c'))))"
  by (simp add: vault_branch_def io_throw_def split: option.splits)

lemma vault_branch_Inr:
  "snd (snd (vault_branch w cfgs v c')) = Inr b \<longleftrightarrow>
     (\<exists>chain. getChainById cfgs (VaultRef.chainId v) = Some chain
        \<and> snd (snd (fetchVaultBalance w chain (VaultRef.vaultAddress v) c')) = Inr b)"
  by (simp add: vault_branch_def io_throw_def split: option.splits)

text \<open>
  Claim C6. For every configuration, world and cache: if the query of any one configured
  chain fails, \<open>fetchChainBalances\<close> fails; when it returns a list, the list has one
  entry for every configured chain, each the value of that chain's query, so no list
  over a strict subset of the chains is ever returned. The same holds for
  \<open>fetchVaultBalances\<close> and the configured vaults, where a vault whose chain id is not
  configured counts as a failed query.
\<close>

theorem fetch_all_or_nothing:
  "((\<exists>i < length (getAllChains cfgs).
        isl (snd (snd (fetchATokenBalance w (getAllChains cfgs ! i) agent (cache_seen w i c)))))
      \<longrightarrow> isl (snd (snd (fetchChainBalances w cfgs agent c))))
   \<and> (snd (snd (fetchChainBalances w cfgs agent c)) = Inr cbs \<longrightarrow>
        length cbs = length (getAllChains cfgs)
        \<and> (\<forall>i < length (getAllChains cfgs).
              snd (snd (fetchATokenBalance w (getAllChains cfgs ! i) agent (cache_seen w i c)))
                = Inr (cbs ! i)))
   \<and> ((\<exists>i < length (getAllVaults cfgs).
        case getChainById cfgs (VaultRef.chainId (getAllVaults cfgs ! i)) of
          None \<Rightarrow> True
        | Some chain \<Rightarrow>
            isl (snd (snd (fetchVaultBalance w chain
                   (VaultRef.vaultAddress (getAllVaults cfgs ! i)) (cache_seen w i c)))))
      \<longrightarrow> isl (snd (snd (fetchVaultBalances w cfgs c))))
   \<and> (snd (snd (fetchVaultBalances w cfgs c)) = Inr vbs \<longrightarrow>
        length vbs = length (getAllVaults cfgs)
        \<and> (\<forall>i < length (getAllVaults cfgs).
              \<exists>chain. getChainById cfgs (VaultRef.chainId (getAllVaults cfgs ! i)) = Some chain
                \<and> snd (snd (fetchVaultBalance w chain
                       (VaultRef.vaultAddress (getAllVaults cfgs ! i)) (cache_seen w i c)))
                    = Inr (vbs ! i)))"
proof (intro conjI impI)
  let ?cb = "map (\<lambda>chain. fetchATokenBalance w chain agent) (getAllChains cfgs)"
  let ?vb = "map (vault_branch w cfgs) (getAllVaults cfgs)"
  show "isl (snd (snd (fetchChainBalances w cfgs agent c)))"
    if "\<exists>i < length (getAllChains cfgs).
        isl (snd (snd (fetchATokenBalance w (getAllChains cfgs ! i) agent (cache_seen w i c))))"
  proof -
    from that obtain i where "i < length ?cb" "isl (snd (snd ((?cb ! i) (cache_seen w i c))))"
      by auto
    then show ?thesis
      unfolding fetchChainBalances_branches by (rule Promise_all_fails)
  qed
  show "isl (snd (snd (fetchVaultBalances w cfgs c)))"
    if "\<exists>i < length (getAllVaults cfgs).
        case getChainById cfgs (VaultRef.chainId (getAllVaults cfgs ! i)) of
          None \<Rightarrow> True
        | Some chain \<Rightarrow>
            isl (snd (snd (fetchVaultBalance w chain
                   (VaultRef.vaultAddress (getAllVaults cfgs ! i)) (cache_seen w i c))))"
  proof -
    from that obtain i where "i < length ?vb" "isl (snd (snd ((?vb ! i) (cache_seen w i c))))"
      by (auto simp: vault_branch_isl)
    then show ?thesis
      unfolding fetchVaultBalances_branches by (rule Promise_all_fails)
  qed
  assume ok: "snd (snd (fetchChainBalances w cfgs agent c)) = Inr cbs"
  then have p: "snd (snd (Promise_all w ?cb c)) = Inr cbs"
    by (simp add: fetchChainBalances_branches)
  from Promise_all_complete(1) [OF p] show "length cbs = length (getAllChains cfgs)"
    by simp
  show "\<forall>i < length (getAllChains cfgs).
          snd (snd (fetchATokenBalance w (getAllChains cfgs ! i) agent (cache_seen w i c)))
            = Inr (cbs ! i)"
    using Promise_all_complete(2) [OF p] by simp
next
  let ?vb = "map (vault_branch w cfgs) (getAllVaults cfgs)"
  assume ok: "snd (snd (fetchVaultBalances w cfgs c)) = Inr vbs"
  then have p: "snd (snd (Promise_all w ?vb c)) = Inr vbs"
    by (simp add: fetchVaultBalances_branches)
  from Promise_all_complete(1) [OF p] show "length vbs = length (getAllVaults cfgs)"
    by simp
  show "\<forall>i < length (getAllVaults cfgs).
          \<exists>chain. getChainById cfgs (VaultRef.chainId (getAllVaults cfgs ! i)) = Some chain
            \<and> snd (snd (fetchVaultBalance w chain
                   (VaultRef.vaultAddress (getAllVaults cfgs ! i)) (cache_seen w i c)))
                = Inr (vbs ! i)"
    using Promise_all_complete(2) [OF p] by (simp add: vault_branch_Inr)
qed

lemma shipped_chains:
  "getAllChains shipped =
     [\<lparr>ChainConfig.chainId = 11155111, name = ''Ethereum Sepolia'',
        rpcUrl = ''https://ethereum-sepolia-rpc.publicnode.com'',
        aavePoolAddress = ''0x6Ae43d3271ff6888e7Fc43Fd7321a503ff738951'',
        usdcAddress = ''0xaA8E23Fb1079EA71e0a56F48a2aA51851D8433D0'',
        vaultAddress = None\<rparr>,
      baseSepolia,
      \<lparr>ChainConfig.chainId = 421614, name = ''Arbitrum Sepolia'',
        rpcUrl = ''https://sepolia-rollup.arbitrum.io/rpc'',
        aavePoolAddress = ''0xBfC91D59fdAA134A4ED45f7B584cAf96D7792Eff'',
        usdcAddress = ''0x75faf114eafb1BDbe2F0316DF893fd58CE46AA4d'',
        vaultAddress = Some ''0xE168d95f8d1B8EC167A63c8E696076EC8EE95337''\<rparr>,
      \<lparr>ChainConfig.chainId = 11155420, name = ''Optimism Sepolia'',
        rpcUrl = ''https://sepolia.optimism.io'',
        aavePoolAddress = ''0xb50201558B00496A145fE76f7424749556E326D8'',
        usdcAddress = ''0x5fd84259d66Cd46123540766Be93DFE6D43130D7'',
        vaultAddress = None\<rparr>]"
  by (simp add: shipped_def getAllChains_def SUPPORTED_CHAINS_def env_or_def falsy_def baseSepolia_eq)

lemma shipped_vaults:
  "getAllVaults shipped =
     [\<lparr>VaultRef.chainId = 84532, vaultAddress = ''0x773035EABdA16B5416B26E12156483C6B6F56451''\<rparr>,
      \<lparr>VaultRef.chainId = 421614, vaultAddress = ''0xE168d95f8d1B8EC167A63c8E696076EC8EE95337''\<rparr>]"
  using shipped_chains
  by (simp add: getAllVaults_def getAllChains_def falsy_def baseSepolia_eq)

lemma shipped_by_id:
  "getChainById shipped 84532 = Some baseSepolia"
  "getChainById shipped 421614 = Some (getAllChains shipped ! 2)"
  using shipped_chains
  by (simp_all add: getChainById_def getAllChains_def baseSepolia_eq)

lemma known_aToken_optimism:
  "known_aToken 11155420 ''0x5fd84259d66Cd46123540766Be93DFE6D43130D7''
     = Some (JsString ''0x16dA4541aD1807f4443d92D26044C1147406EB80'')"
  by (simp add: known_aToken_def KNOWN_ATOKEN_ADDRESSES_def toLowerCase_def toLowerCase_char_def
      get_property_def truthy_def)

theorem fetch_all_or_nothing_witness:
  "length (getAllChains shipped) = 4
   \<and> isl (snd (snd (fetchATokenBalance optimism_down_world (getAllChains shipped ! 3)
                      ''0x20f2747bbc52453ac0774b5b2fe0e28dc6637f30''
                      (cache_seen optimism_down_world 3 Map.empty))))
   \<and> \<not> isl (snd (snd (fetchATokenBalance optimism_down_world (getAllChains shipped ! 1)
                      ''0x20f2747bbc52453ac0774b5b2fe0e28dc6637f30''
                      (cache_seen optimism_down_world 1 Map.empty))))
   \<and> isl (snd (snd (fetchChainBalances optimism_down_world shipped
                      ''0x20f2747bbc52453ac0774b5b2fe0e28dc6637f30'' Map.empty)))
   \<and> length (getAllVaults shipped) = 2
   \<and> snd (snd (fetchVaultBalances erc4626_world shipped Map.empty))
        = Inr [\<lparr>VaultBalance.chainId = 84532, chainName = ''Base Sepolia'',
                 vaultAddress = ''0x773035EABdA16B5416B26E12156483C6B6F56451'',
                 usdcBalance = ''0'', aTokenBalance = ''2500000000'',
                 blockNumber = 7654321, timestamp = 1700000000\<rparr>,
               \<lparr>VaultBalance.chainId = 421614, chainName = ''Arbitrum Sepolia'',
                 vaultAddress = ''0xE168d95f8d1B8EC167A63c8E696076EC8EE95337'',
                 usdcBalance = ''0'', aTokenBalance = ''2500000000'',
                 blockNumber = 7654321, timestamp = 1700000000\<rparr>]
   \<and> snd (snd (fetchVaultBalance erc4626_world baseSepolia
                  ''0x773035EABdA16B5416B26E12156483C6B6F56451'' (cache_seen erc4626_world 0 Map.empty)))
        = Inr \<lparr>VaultBalance.chainId = 84532, chainName = ''Base Sepolia'',
                 vaultAddress = ''0x773035EABdA16B5416B26E12156483C6B6F56451'',
                 usdcBalance = ''0'', aTokenBalance = ''2500000000'',
                 blockNumber = 7654321, timestamp = 1700000000\<rparr>
   \<and> isl (snd (snd (fetchVaultBalances offline_world shipped Map.empty)))"
proof -
  let ?agent = "''0x20f2747bbc52453ac0774b5b2fe0e28dc6637f30''"
  let ?vb1 = "\<lparr>VaultBalance.chainId = 84532, chainName = ''Base Sepolia'',
                 vaultAddress = ''0x773035EABdA16B5416B26E12156483C6B6F56451'',
                 usdcBalance = ''0'', aTokenBalance = ''2500000000'',
                 blockNumber = 7654321, timestamp = 1700000000\<rparr>"
  let ?vb2 = "\<lparr>VaultBalance.chainId = 421614, chainName = ''Arbitrum Sepolia'',
                 vaultAddress = ''0xE168d95f8d1B8EC167A63c8E696076EC8EE95337'',
                 usdcBalance = ''0'', aTokenBalance = ''2500000000'',
                 blockNumber = 7654321, timestamp = 1700000000\<rparr>"
  have n4: "length (getAllChains shipped) = 4" by (simp add: shipped_chains)
  have n2: "length (getAllVaults shipped) = 2" by (simp add: shipped_vaults)
  have known_b: "known_aToken (ChainConfig.chainId baseSepolia) (usdcAddress baseSepolia)
      = Some (JsString ''0x4e65fE4DbA92790696d040ac24Aa414708F5c0AB'')"
    by (simp add: baseSepolia_eq known_aToken_base)
  let ?opt = "\<lparr>ChainConfig.chainId = 11155420, name = ''Optimism Sepolia'',
        rpcUrl = ''https://sepolia.optimism.io'',
        aavePoolAddress = ''0xb50201558B00496A145fE76f7424749556E326D8'',
        usdcAddress = ''0x5fd84259d66Cd46123540766Be93DFE6D43130D7'',
        vaultAddress = None\<rparr>"
  have known_o: "known_aToken (ChainConfig.chainId ?opt) (usdcAddress ?opt)
      = Some (JsString ''0x16dA4541aD1807f4443d92D26044C1147406EB80'')"
    by (simp add: known_aToken_optimism)
  have down: "getReserveData optimism_down_world u p x = Inl rpc_down"
    and empty: "balanceOf optimism_down_world u x h = Inl bad_data"
    and code: "err_code bad_data = Some ''BAD_DATA''"
    and blk_o: "getBlockNumber optimism_down_world ''https://sepolia.optimism.io'' = Inl rpc_down"
    and blk_b: "getBlockNumber optimism_down_world ''https://sepolia.base.org'' = Inr 7654321"
    for u p x h
    by (simp_all add: optimism_down_world_def empty_data_world_def offline_world_def bad_data_def)
  have g_o: "getATokenAddress optimism_down_world ?opt (usdcAddress ?opt) Map.empty
      = ([Call_getReserveData (rpcUrl ?opt) (aavePoolAddress ?opt) (usdcAddress ?opt)],
         [cacheKey_of ?opt (usdcAddress ?opt) \<mapsto> JsString ''0x16dA4541aD1807f4443d92D26044C1147406EB80''],
         Inr (JsString ''0x16dA4541aD1807f4443d92D26044C1147406EB80''))"
    unfolding getATokenAddress_unfold by (simp add: down known_aToken_optimism)
  have g_b: "getATokenAddress optimism_down_world baseSepolia (usdcAddress baseSepolia) Map.empty
      = ([Call_getReserveData (rpcUrl baseSepolia) (aavePoolAddress baseSepolia) (usdcAddress baseSepolia)],
         [cacheKey_of baseSepolia (usdcAddress baseSepolia) \<mapsto> JsString ''0x4e65fE4DbA92790696d040ac24Aa414708F5c0AB''],
         Inr (JsString ''0x4e65fE4DbA92790696d040ac24Aa414708F5c0AB''))"
    unfolding getATokenAddress_unfold by (simp add: down known_b)
  have "isl (snd (snd (fetchATokenBalance optimism_down_world ?opt ?agent Map.empty)))"
    unfolding fetchATokenBalance_unfold g_o by (simp add: empty code blk_o)
  then have opt_fails: "isl (snd (snd (fetchATokenBalance optimism_down_world (getAllChains shipped ! 3)
      ?agent (cache_seen optimism_down_world 3 Map.empty))))"
    by (simp add: shipped_chains worlds_see_cache)
  have "\<not> isl (snd (snd (fetchATokenBalance optimism_down_world baseSepolia ?agent Map.empty)))"
    unfolding fetchATokenBalance_unfold g_b by (simp add: empty code blk_b baseSepolia_eq)
  then have base_ok: "\<not> isl (snd (snd (fetchATokenBalance optimism_down_world (getAllChains shipped ! 1)
      ?agent (cache_seen optimism_down_world 1 Map.empty))))"
    by (simp add: shipped_chains worlds_see_cache)
  have v1: "fetchVaultBalance erc4626_world baseSepolia
      ''0x773035EABdA16B5416B26E12156483C6B6F56451'' Map.empty
      = ([Call_getBlockNumber ''https://sepolia.base.org'',
          Call_totalAssets ''https://sepolia.base.org'' ''0x773035EABdA16B5416B26E12156483C6B6F56451''],
         Map.empty, Inr ?vb1)"
    by (simp add: fetchVaultBalance_unfold erc4626_world_def offline_world_def
        bigint_toString_2500000000 baseSepolia_eq)
  have v2: "snd (snd (fetchVaultBalance erc4626_world (getAllChains shipped ! 2)
      ''0xE168d95f8d1B8EC167A63c8E696076EC8EE95337'' Map.empty)) = Inr ?vb2"
    by (simp add: fetchVaultBalance_unfold erc4626_world_def offline_world_def
        bigint_toString_2500000000 shipped_chains)
  have all_ok: "snd (snd (fetchVaultBalances erc4626_world shipped Map.empty)) = Inr [?vb1, ?vb2]"
    by (simp add: fetchVaultBalances_branches Promise_all_Inr_iff branch_results_def shipped_vaults
        vault_branch_def shipped_by_id worlds_see_cache v1 v2)
  have base_down: "isl (snd (snd (fetchVaultBalance offline_world baseSepolia
      ''0x773035EABdA16B5416B26E12156483C6B6F56451'' (cache_seen offline_world 0 Map.empty))))"
    by (simp add: fetchVaultBalance_unfold offline_world_def)
  note r1 = fetch_all_or_nothing
    [where w = optimism_down_world and cfgs = shipped and agent = ?agent and c = Map.empty]
  note r2 = fetch_all_or_nothing
    [where w = erc4626_world and cfgs = shipped and c = Map.empty and vbs = "[?vb1, ?vb2]"]
  note r3 = fetch_all_or_nothing
    [where w = offline_world and cfgs = shipped and c = Map.empty]
  from opt_fails n4 have "\<exists>i < length (getAllChains shipped).
      isl (snd (snd (fetchATokenBalance optimism_down_world (getAllChains shipped ! i) ?agent
        (cache_seen optimism_down_world i Map.empty))))"
    by (intro exI [of _ 3]) simp
  with r1 have chains_fail: "isl (snd (snd (fetchChainBalances optimism_down_world shipped ?agent Map.empty)))"
    by blast
  from r2 all_ok have per_vault: "\<forall>i < length (getAllVaults shipped).
      \<exists>chain. getChainById shipped (VaultRef.chainId (getAllVaults shipped ! i)) = Some chain
        \<and> snd (snd (fetchVaultBalance erc4626_world chain
               (VaultRef.vaultAddress (getAllVaults shipped ! i)) (cache_seen erc4626_world i Map.empty)))
            = Inr ([?vb1, ?vb2] ! i)"
    by blast
  from per_vault n2 have first_vault: "snd (snd (fetchVaultBalance erc4626_world baseSepolia
      ''0x773035EABdA16B5416B26E12156483C6B6F56451'' (cache_seen erc4626_world 0 Map.empty))) = Inr ?vb1"
    by (auto simp: shipped_vaults shipped_by_id dest: spec [of _ 0])
  from base_down n2 have "\<exists>i < length (getAllVaults shipped).
        case getChainById shipped (VaultRef.chainId (getAllVaults shipped ! i)) of
          None \<Rightarrow> True
        | Some chain \<Rightarrow>
            isl (snd (snd (fetchVaultBalance offline_world chain
                   (VaultRef.vaultAddress (getAllVaults shipped ! i)) (cache_seen offline_world i Map.empty))))"
    by (intro exI [of _ 0]) (simp add: shipped_vaults shipped_by_id)
  with r3 have vaults_fail: "isl (snd (snd (fetchVaultBalances offline_world shipped Map.empty)))"
    by blast
  from n4 opt_fails base_ok chains_fail n2 all_ok first_vault vaults_fail show ?thesis
    by blast
qed

section \<open>Signing and verifying a snapshot\<close>

lemma initialize_unfold:
  "initialize L env this =
     (if isInitialized this then ([], this, Inr ())
      else
        (case KeyPair_fromString L (env ''NEAR_PRIVATE_KEY'') of
           Inl e \<Rightarrow> ([], this\<lparr>keyStore := Some []\<rparr>, Inl e)
         | Inr keyPair \<Rightarrow>
             ([], this\<lparr>keyStore := Some (setKey ''testnet'' (nearAccountId this) keyPair []),
                        isInitialized := True\<rparr>, Inr ())))"
  by (simp add: initialize_def io_defs split: sum.splits)

lemma initialize_agentAddress:
  "NearContractService.agentAddress (fst (snd (initialize L env this)))
     = NearContractService.agentAddress this"
  by (simp add: initialize_unfold split: sum.splits)

lemma signBalanceSnapshot_initialized:
  assumes "isInitialized this"
  shows "signBalanceSnapshot L w env snapshot V cid this =
     (let nodeUrl = env_or env ''NEAR_RPC_URL'' ''https://rpc.testnet.near.org'';
          options = call_options this snapshot V cid;
          t1 = [Call_connect nodeUrl];
          t2 = [Call_connect nodeUrl, Call_account (nearAccountId this)];
          t3 = [Call_connect nodeUrl, Call_account (nearAccountId this), Call_functionCall options]
      in
      case connect w nodeUrl (keyStore this) of
        Inl e \<Rightarrow> (t1, this, Inl e)
      | Inr u1 \<Rightarrow>
      (case account w (nearAccountId this) of
        Inl e \<Rightarrow> (t2, this, Inl e)
      | Inr u2 \<Rightarrow>
      (case functionCall w nodeUrl (nearAccountId this) (keyStore this) options of
        Inl e \<Rightarrow> (t3, this, Inl e)
      | Inr SuccessValue \<Rightarrow>
          if falsy SuccessValue then
            (t3, this, Inl (new_Error ''No SuccessValue in NEAR transaction result''))
          else
            (case JSON_parse L (base64_utf8 L (the SuccessValue)) of
               Inl e \<Rightarrow> (t3, this, Inl e)
             | Inr (JArray elems) \<Rightarrow>
                 (let signatureBytes = Buffer_from L elems
                  in
                  if length signatureBytes \<noteq> 65 then
                    (t3, this,
                     Inl (new_Error (''Invalid signature length: '' @ number_toString (length signatureBytes)
                            @ '', expected 65'')))
                  else
                    (case TypedDataEncoder_hash L (domain_of V cid) snapshot of
                       Inl e \<Rightarrow> (t3, this, Inl e)
                     | Inr digest \<Rightarrow>
                         (t3 @ [Call_recoverAddress digest (signature65_of signatureBytes)], this,
                          case recoverAddress L digest (signature65_of signatureBytes) of
                            Inl e \<Rightarrow> Inl e
                          | Inr recoveredAddress \<Rightarrow>
                              if toLowerCase recoveredAddress
                                 \<noteq> toLowerCase (NearContractService.agentAddress this)
                              then
                                Inl (new_Error (''Signature verification failed! Recovered ''
                                       @ recoveredAddress @ '', expected ''
                                       @ NearContractService.agentAddress this))
                              else
                                Inr \<lparr>signature = signature65_of signatureBytes,
                                     agentAddress = NearContractService.agentAddress this\<rparr>)))
             | Inr other \<Rightarrow>
                 (t3, this, Inl (new_Error ''Expected signature to be an array of bytes''))))))"
  using assms
  apply (cases "connect w (env_or env ''NEAR_RPC_URL'' ''https://rpc.testnet.near.org'') (keyStore this)")
   apply (simp add: signBalanceSnapshot_def io_defs Let_def)
  apply (cases "account w (nearAccountId this)")
   apply (simp add: signBalanceSnapshot_def io_defs Let_def)
  apply (cases "functionCall w (env_or env ''NEAR_RPC_URL'' ''https://rpc.testnet.near.org'')
      (nearAccountId this) (keyStore this) (call_options this snapshot V cid)")
   apply (simp add: signBalanceSnapshot_def io_defs Let_def call_options_def)
  subgoal for u1 u2 SuccessValue
    apply (cases "falsy SuccessValue")
     apply (simp add: signBalanceSnapshot_def io_defs Let_def call_options_def)
    apply (cases "JSON_parse L (base64_utf8 L (the SuccessValue))")
     apply (simp add: signBalanceSnapshot_def io_defs Let_def call_options_def)
    subgoal for j
      apply (cases j)
           apply (simp_all add: signBalanceSnapshot_def io_defs Let_def call_options_def)
      subgoal for elems
        apply (cases "TypedDataEncoder_hash L (domain_of V cid) snapshot")
         apply (simp_all add: domain_of_def signature65_of_def)
        apply (cases "recoverAddress L (projr (TypedDataEncoder_hash L (domain_of V cid) snapshot))
            (signature65_of (Buffer_from L elems))")
         apply (simp_all add: domain_of_def signature65_of_def io_defs)
        done
      done
    done
  done

lemma signBalanceSnapshot_init_fails:
  assumes "\<not> isInitialized this" "KeyPair_fromString L (env ''NEAR_PRIVATE_KEY'') = Inl e"
  shows "signBalanceSnapshot L w env snapshot V cid this = ([], this\<lparr>keyStore := Some []\<rparr>, Inl e)"
  using assms by (simp add: signBalanceSnapshot_def initialize_def io_defs)

lemma signBalanceSnapshot_init_ok:
  assumes "\<not> isInitialized this" "KeyPair_fromString L (env ''NEAR_PRIVATE_KEY'') = Inr keyPair"
  shows "signBalanceSnapshot L w env snapshot V cid this
    = signBalanceSnapshot L w env snapshot V cid
        (this\<lparr>keyStore := Some (setKey ''testnet'' (nearAccountId this) keyPair []),
              isInitialized := True\<rparr>)"
  using assms by (simp add: signBalanceSnapshot_def initialize_def io_defs)

lemma signBalanceSnapshot_reduce:
  obtains this1 where "isInitialized this1"
      "NearContractService.agentAddress this1 = NearContractService.agentAddress this"
      "signBalanceSnapshot L w env snapshot V cid this
         = signBalanceSnapshot L w env snapshot V cid this1"
  | e this1 where "signBalanceSnapshot L w env snapshot V cid this = ([], this1, Inl e)"
proof (cases "isInitialized this")
  case True
  then show ?thesis using that(1) [of this] by simp
next
  case False
  show ?thesis
  proof (cases "KeyPair_fromString L (env ''NEAR_PRIVATE_KEY'')")
    case (Inl e)
    with False show ?thesis
      using that(2) signBalanceSnapshot_init_fails by blast
  next
    case (Inr keyPair)
    with False show ?thesis
      using that(1) [of "this\<lparr>keyStore := Some (setKey ''testnet'' (nearAccountId this) keyPair []),
              isInitialized := True\<rparr>"] signBalanceSnapshot_init_ok [of this L env keyPair]
      by simp
  qed
qed

lemma sign_initialized_props:
  assumes "isInitialized this"
  shows "Call_recoverAddress d sg \<in> set (fst (signBalanceSnapshot L w env snapshot V cid this)) \<Longrightarrow>
           TypedDataEncoder_hash L (domain_of V cid) snapshot = Inr d
           \<and> (\<exists>bytes. length bytes = 65 \<and> sg = signature65_of bytes)
           \<and> snd (snd (signBalanceSnapshot L w env snapshot V cid this))
               = (case recoverAddress L d sg of
                    Inl e \<Rightarrow> Inl e
                  | Inr recoveredAddress \<Rightarrow>
                      if toLowerCase recoveredAddress
                         \<noteq> toLowerCase (NearContractService.agentAddress this)
                      then Inl (new_Error (''Signature verification failed! Recovered ''
                                  @ recoveredAddress @ '', expected ''
                                  @ NearContractService.agentAddress this))
                      else Inr \<lparr>signature = sg,
                                agentAddress = NearContractService.agentAddress this\<rparr>)"
    and "snd (snd (signBalanceSnapshot L w env snapshot V cid this)) = Inr resp \<Longrightarrow>
           \<exists>d. Call_recoverAddress d (signature resp)
                  \<in> set (fst (signBalanceSnapshot L w env snapshot V cid this))"
  using assms
  by (auto simp: signBalanceSnapshot_initialized Let_def
      split: sum.splits json.splits if_splits)

lemma sign_verification:
  "(Call_recoverAddress d sg \<in> set (fst (signBalanceSnapshot L w env snapshot V cid this)) \<longrightarrow>
      TypedDataEncoder_hash L (domain_of V cid) snapshot = Inr d
      \<and> (\<exists>bytes. length bytes = 65 \<and> sg = signature65_of bytes))
   \<and> (Call_recoverAddress d sg \<in> set (fst (signBalanceSnapshot L w env snapshot V cid this))
       \<and> recoverAddress L d sg = Inr recovered
       \<and> toLowerCase recovered \<noteq> toLowerCase (NearContractService.agentAddress this) \<longrightarrow>
      snd (snd (signBalanceSnapshot L w env snapshot V cid this))
        = Inl (new_Error (''Signature verification failed! Recovered '' @ recovered
                 @ '', expected '' @ NearContractService.agentAddress this)))
   \<and> (snd (snd (signBalanceSnapshot L w env snapshot V cid this)) = Inr resp \<longrightarrow>
      MpcSignatureResponse.agentAddress resp = NearContractService.agentAddress this
      \<and> (\<exists>d' recovered'.
             TypedDataEncoder_hash L (domain_of V cid) snapshot = Inr d'
             \<and> Call_recoverAddress d' (signature resp)
                 \<in> set (fst (signBalanceSnapshot L w env snapshot V cid this))
             \<and> recoverAddress L d' (signature resp) = Inr recovered'
             \<and> toLowerCase recovered' = toLowerCase (NearContractService.agentAddress this)))"
proof (rule signBalanceSnapshot_reduce
    [where L = L and w = w and env = env and snapshot = snapshot and V = V and cid = cid
       and this = this])
  fix this1
  assume init: "isInitialized this1"
    and same: "NearContractService.agentAddress this1 = NearContractService.agentAddress this"
    and run: "signBalanceSnapshot L w env snapshot V cid this
         = signBalanceSnapshot L w env snapshot V cid this1"
  note p = sign_initialized_props
    [OF init, where L = L and w = w and env = env and snapshot = snapshot and V = V and cid = cid,
      unfolded same, folded run]
  have c1: "TypedDataEncoder_hash L (domain_of V cid) snapshot = Inr d
      \<and> (\<exists>bytes. length bytes = 65 \<and> sg = signature65_of bytes)"
    if "Call_recoverAddress d sg \<in> set (fst (signBalanceSnapshot L w env snapshot V cid this))"
    using that p(1) [where d = d and sg = sg] by simp
  have c2: "snd (snd (signBalanceSnapshot L w env snapshot V cid this))
        = Inl (new_Error (''Signature verification failed! Recovered '' @ recovered
                 @ '', expected '' @ NearContractService.agentAddress this))"
    if "Call_recoverAddress d sg \<in> set (fst (signBalanceSnapshot L w env snapshot V cid this))
       \<and> recoverAddress L d sg = Inr recovered
       \<and> toLowerCase recovered \<noteq> toLowerCase (NearContractService.agentAddress this)"
    using that p(1) [where d = d and sg = sg] by simp
  have c3: "MpcSignatureResponse.agentAddress resp = NearContractService.agentAddress this
      \<and> (\<exists>d' recovered'.
             TypedDataEncoder_hash L (domain_of V cid) snapshot = Inr d'
             \<and> Call_recoverAddress d' (signature resp)
                 \<in> set (fst (signBalanceSnapshot L w env snapshot V cid this))
             \<and> recoverAddress L d' (signature resp) = Inr recovered'
             \<and> toLowerCase recovered' = toLowerCase (NearContractService.agentAddress this))"
    if ok: "snd (snd (signBalanceSnapshot L w env snapshot V cid this)) = Inr resp"
  proof -
    from ok p(2) [where resp = resp] obtain d' where
      tr: "Call_recoverAddress d' (signature resp)
             \<in> set (fst (signBalanceSnapshot L w env snapshot V cid this))"
      by auto
    from p(1) [OF tr] ok
    have h: "TypedDataEncoder_hash L (domain_of V cid) snapshot = Inr d'"
      and r: "(case recoverAddress L d' (signature resp) of
                    Inl e \<Rightarrow> Inl e
                  | Inr recoveredAddress \<Rightarrow>
                      if toLowerCase recoveredAddress
                         \<noteq> toLowerCase (NearContractService.agentAddress this)
                      then Inl (new_Error (''Signature verification failed! Recovered ''
                                  @ recoveredAddress @ '', expected ''
                                  @ NearContractService.agentAddress this))
                      else Inr \<lparr>signature = signature resp,
                                agentAddress = NearContractService.agentAddress this\<rparr>) = Inr resp"
      by simp_all
    from r obtain recovered' where
      a: "recoverAddress L d' (signature resp) = Inr recovered'"
        "toLowerCase recovered' = toLowerCase (NearContractService.agentAddress this)"
      and b: "resp = \<lparr>signature = signature resp,
                       agentAddress = NearContractService.agentAddress this\<rparr>"
      by (auto split: sum.splits if_splits)
    from b have "MpcSignatureResponse.agentAddress resp = NearContractService.agentAddress this"
      by (metis MpcSignatureResponse.select_convs(2))
    with a h tr show ?thesis by auto
  qed
  from c1 c2 c3 show ?thesis by blast
next
  fix e this1
  assume "signBalanceSnapshot L w env snapshot V cid this = ([], this1, Inl e)"
  then show ?thesis by simp
qed

lemma getAgentAddress_unfold:
  "getAgentAddress this = ([], this, Inr (NearContractService.agentAddress this))"
  by (simp add: getAgentAddress_def io_defs)

lemma sign_state_initialized:
  "isInitialized this \<Longrightarrow> fst (snd (signBalanceSnapshot L w env snapshot V cid this)) = this"
  by (simp add: signBalanceSnapshot_initialized Let_def split: sum.splits json.splits)

lemma sign_agentAddress:
  "NearContractService.agentAddress (fst (snd (signBalanceSnapshot L w env snapshot V cid this)))
     = NearContractService.agentAddress this"
proof (rule signBalanceSnapshot_reduce
    [where L = L and w = w and env = env and snapshot = snapshot and V = V and cid = cid
       and this = this])
  fix this1
  assume "isInitialized this1"
    "NearContractService.agentAddress this1 = NearContractService.agentAddress this"
    "signBalanceSnapshot L w env snapshot V cid this
         = signBalanceSnapshot L w env snapshot V cid this1"
  then show ?thesis by (simp add: sign_state_initialized)
next
  fix e this1
  assume r: "signBalanceSnapshot L w env snapshot V cid this = ([], this1, Inl e)"
  show ?thesis
  proof (cases "isInitialized this")
    case True
    with r show ?thesis using sign_state_initialized [of this L w env snapshot V cid] by simp
  next
    case False
    then show ?thesis
      by (cases "KeyPair_fromString L (env ''NEAR_PRIVATE_KEY'')")
        (simp_all add: signBalanceSnapshot_init_fails signBalanceSnapshot_init_ok
          sign_state_initialized)
  qed
qed

lemma reachable_agentAddress:
  "reachable this \<Longrightarrow>
   NearContractService.agentAddress this = ''0x20f2747bbc52453ac0774b5b2fe0e28dc6637f30''"
proof (induction rule: reachable.induct)
  case (constructed env this)
  then show ?case
    by (auto simp: NearContractService_new_def split: if_splits)
next
  case (initialized this L env)
  then show ?case by (simp add: initialize_agentAddress)
next
  case (asked this)
  then show ?case by (simp add: getAgentAddress_unfold)
next
  case (signed this L w env snapshot V cid)
  then show ?case by (simp add: sign_agentAddress)
qed

lemma subarray_r: "64 \<le> length bs \<Longrightarrow> subarray 0 32 bs = take 32 bs"
  by (simp add: subarray_def clamp_index_def Let_def)

lemma subarray_s: "64 \<le> length bs \<Longrightarrow> subarray 32 64 bs = take 32 (drop 32 bs)"
  by (simp add: subarray_def clamp_index_def Let_def)

lemma signature65_of_eq:
  "length bs = 65 \<Longrightarrow>
   signature65_of bs = hexlify (take 32 bs @ take 32 (drop 32 bs) @ [bs ! 64 + 27])"
  by (simp add: signature65_of_def subarray_r subarray_s)

lemma sign_after_initialize:
  assumes "initialize L env this = (t0, this1, Inr u)"
  shows "isInitialized this1"
    and "signBalanceSnapshot L w env snapshot V cid this
           = signBalanceSnapshot L w env snapshot V cid this1"
proof -
  show "isInitialized this1"
    using assms by (auto simp: initialize_unfold split: if_splits sum.splits)
  show "signBalanceSnapshot L w env snapshot V cid this
           = signBalanceSnapshot L w env snapshot V cid this1"
  proof (cases "isInitialized this")
    case True
    with assms show ?thesis by (simp add: initialize_unfold)
  next
    case False
    with assms obtain keyPair where
      "KeyPair_fromString L (env ''NEAR_PRIVATE_KEY'') = Inr keyPair"
      "this1 = this\<lparr>keyStore := Some (setKey ''testnet'' (nearAccountId this) keyPair []),
                    isInitialized := True\<rparr>"
      by (auto simp: initialize_unfold split: sum.splits)
    with False show ?thesis
      using signBalanceSnapshot_init_ok [of this L env keyPair] by simp
  qed
qed

lemma byte_plus_27:
  "unat ((b :: byte) + 27) = (unat b + 27) mod 256"
  "unat b \<le> 228 \<Longrightarrow> unat (b + 27) = unat b + 27"
proof -
  show m: "unat (b + 27) = (unat b + 27) mod 256"
    by (simp add: unat_word_ariths)
  show "unat (b + 27) = unat b + 27" if "unat b \<le> 228"
    using that by (simp add: m)
qed

lemma new_service0: "NearContractService_new env0 = Inr service0"
  by (simp add: NearContractService_new_def env0_def service0_def falsy_def)

lemma initialize_service0:
  "initialize (libs_with parsed recovered) env0 service0 = ([], service1, Inr ())"
  by (simp add: initialize_unfold libs_with_def env0_def service0_def service1_def setKey_def)

lemma Buffer_from_response:
  "Buffer_from (libs_with parsed recovered) (response k)
     = replicate 32 17 @ replicate 32 34 @ [of_int k]"
  by (simp add: Buffer_from_def response_def ToUint8_def)

lemma example_stages:
  "connect signer_world u ks = Inr ()" "account signer_world a = Inr ()"
  "functionCall signer_world u a ks opts = Inr (Some ''WzE3LC4uLl0='')"
  "JSON_parse (libs_with parsed recovered) (base64_utf8 (libs_with parsed recovered) x) = Inr parsed"
  "TypedDataEncoder_hash (libs_with parsed recovered) dm v = Inr ''0xd1''"
  "recoverAddress (libs_with parsed recovered) dg sg = Inr recovered"
  by (simp_all add: signer_world_def libs_with_def)

lemma example_run:
  "signBalanceSnapshot (libs_with (JArray (response k)) recovered) signer_world env0 snapshot0
     ''0x773035EABdA16B5416B26E12156483C6B6F56451'' 84532 service0
   = ([Call_connect ''https://rpc.testnet.near.org'', Call_account ''oracle.testnet'',
       Call_functionCall
         (call_options service1 snapshot0 ''0x773035EABdA16B5416B26E12156483C6B6F56451'' 84532),
       Call_recoverAddress ''0xd1''
         (hexlify (replicate 32 17 @ replicate 32 34 @ [of_int k + 27]))],
      service1,
      if toLowerCase recovered \<noteq> toLowerCase ''0x20f2747bbc52453ac0774b5b2fe0e28dc6637f30''
      then Inl (new_Error (''Signature verification failed! Recovered '' @ recovered
                  @ '', expected 0x20f2747bbc52453ac0774b5b2fe0e28dc6637f30''))
      else Inr \<lparr>signature = hexlify (replicate 32 17 @ replicate 32 34 @ [of_int k + 27]),
                agentAddress = ''0x20f2747bbc52453ac0774b5b2fe0e28dc6637f30''\<rparr>)"
proof -
  let ?L = "libs_with (JArray (response k)) recovered"
  have i: "isInitialized service1" by (simp add: service1_def)
  have len: "length (Buffer_from ?L (response k)) = 65"
    by (simp add: Buffer_from_response)
  have sg: "signature65_of (Buffer_from ?L (response k))
      = hexlify (replicate 32 17 @ replicate 32 34 @ [of_int k + 27])"
    by (simp add: signature65_of_eq [OF len]) (simp add: Buffer_from_response nth_append)
  have url: "env_or env0 ''NEAR_RPC_URL'' ''https://rpc.testnet.near.org'' = ''https://rpc.testnet.near.org''"
    by (simp add: env_or_def env0_def falsy_def)
  have s1: "nearAccountId service1 = ''oracle.testnet''"
    "NearContractService.agentAddress service1 = ''0x20f2747bbc52453ac0774b5b2fe0e28dc6637f30''"
    by (simp_all add: service1_def service0_def)
  show ?thesis
    unfolding sign_after_initialize(2) [OF initialize_service0]
      signBalanceSnapshot_initialized [OF i]
    by (simp add: example_stages url len sg s1 falsy_def Let_def)
qed

lemma toLowerCase_examples:
  "toLowerCase ''0x20f2747bbc52453ac0774b5b2fe0e28dc6637f30'' = ''0x20f2747bbc52453ac0774b5b2fe0e28dc6637f30''"
  "toLowerCase ''0x20F2747BBC52453AC0774B5B2FE0E28DC6637F30'' = ''0x20f2747bbc52453ac0774b5b2fe0e28dc6637f30''"
  "toLowerCase ''0x70997970C51812dc3A010C7d01b50e0d17dc79C8'' = ''0x70997970c51812dc3a010c7d01b50e0d17dc79c8''"
  by (simp_all add: toLowerCase_def toLowerCase_char_def)

lemma agent_service0:
  "NearContractService.agentAddress service0 = ''0x20f2747bbc52453ac0774b5b2fe0e28dc6637f30''"
  by (simp add: service0_def)

section \<open>A wrong signer is rejected\<close>

text \<open>
  Claim C1. For every signing request: the one recovery that \<open>signBalanceSnapshot\<close>
  attempts is on the digest computed locally from the snapshot and the domain and on
  the signature built from a decoded 65-byte response; if the address it recovers does
  not equal the expected agent address after lower-casing both, the call fails with
  the error \<open>Signature verification failed!\<close> and returns no response; and whenever a
  response is returned, the signer recovered from the digest and the returned signature
  equals the agent address up to case.
\<close>

theorem signBalanceSnapshot_rejects_wrong_signer:
  "(Call_recoverAddress d sg \<in> set (fst (signBalanceSnapshot L w env snapshot V cid this)) \<longrightarrow>
      TypedDataEncoder_hash L (domain_of V cid) snapshot = Inr d
      \<and> (\<exists>bytes. length bytes = 65 \<and> sg = signature65_of bytes))
   \<and> (Call_recoverAddress d sg \<in> set (fst (signBalanceSnapshot L w env snapshot V cid this))
       \<and> recoverAddress L d sg = Inr recovered
       \<and> toLowerCase recovered \<noteq> toLowerCase (NearContractService.agentAddress this) \<longrightarrow>
      snd (snd (signBalanceSnapshot L w env snapshot V cid this))
        = Inl (new_Error (''Signature verification failed! Recovered '' @ recovered
                 @ '', expected '' @ NearContractService.agentAddress this)))
   \<and> (snd (snd (signBalanceSnapshot L w env snapshot V cid this)) = Inr resp \<longrightarrow>
      (\<exists>d' recovered'.
             TypedDataEncoder_hash L (domain_of V cid) snapshot = Inr d'
             \<and> Call_recoverAddress d' (signature resp)
                 \<in> set (fst (signBalanceSnapshot L w env snapshot V cid this))
             \<and> recoverAddress L d' (signature resp) = Inr recovered'
             \<and> toLowerCase recovered' = toLowerCase (NearContractService.agentAddress this)))"
  using sign_verification
    [where L = L and w = w and env = env and snapshot = snapshot and V = V and cid = cid
       and this = this and d = d and sg = sg and recovered = recovered and resp = resp]
  by blast

theorem signBalanceSnapshot_rejects_wrong_signer_witness:
  "Call_recoverAddress ''0xd1'' (hexlify (replicate 32 17 @ replicate 32 34 @ [28]))
     \<in> set (fst (signBalanceSnapshot
          (libs_with (JArray (response 1)) ''0x70997970C51812dc3A010C7d01b50e0d17dc79C8'')
          signer_world env0 snapshot0 ''0x773035EABdA16B5416B26E12156483C6B6F56451'' 84532 service0))
   \<and> recoverAddress (libs_with (JArray (response 1)) ''0x70997970C51812dc3A010C7d01b50e0d17dc79C8'')
         ''0xd1'' (hexlify (replicate 32 17 @ replicate 32 34 @ [28]))
       = Inr ''0x70997970C51812dc3A010C7d01b50e0d17dc79C8''
   \<and> toLowerCase ''0x70997970C51812dc3A010C7d01b50e0d17dc79C8''
       \<noteq> toLowerCase (NearContractService.agentAddress service0)
   \<and> snd (snd (signBalanceSnapshot
          (libs_with (JArray (response 1)) ''0x70997970C51812dc3A010C7d01b50e0d17dc79C8'')
          signer_world env0 snapshot0 ''0x773035EABdA16B5416B26E12156483C6B6F56451'' 84532 service0))
       = Inl (new_Error (''Signature verification failed! Recovered 0x70997970C51812dc3A010C7d01b50e0d17dc79C8''
                @ '', expected 0x20f2747bbc52453ac0774b5b2fe0e28dc6637f30''))
   \<and> snd (snd (signBalanceSnapshot
          (libs_with (JArray (response 1)) ''0x20F2747BBC52453AC0774B5B2FE0E28DC6637F30'')
          signer_world env0 snapshot0 ''0x773035EABdA16B5416B26E12156483C6B6F56451'' 84532 service0))
       = Inr \<lparr>signature = hexlify (replicate 32 17 @ replicate 32 34 @ [28]),
              agentAddress = ''0x20f2747bbc52453ac0774b5b2fe0e28dc6637f30''\<rparr>"
proof -
  let ?wrong = "''0x70997970C51812dc3A010C7d01b50e0d17dc79C8''"
  let ?V = "''0x773035EABdA16B5416B26E12156483C6B6F56451''"
  let ?sg = "hexlify (replicate 32 17 @ replicate 32 34 @ [28 :: byte])"
  let ?L = "libs_with (JArray (response 1)) ?wrong"
  have tr: "Call_recoverAddress ''0xd1'' ?sg
      \<in> set (fst (signBalanceSnapshot ?L signer_world env0 snapshot0 ?V 84532 service0))"
    by (simp add: example_run)
  have rec: "recoverAddress ?L ''0xd1'' ?sg = Inr ?wrong"
    by (simp add: example_stages)
  have ne: "toLowerCase ?wrong \<noteq> toLowerCase (NearContractService.agentAddress service0)"
    by (simp add: agent_service0 toLowerCase_examples)
  from signBalanceSnapshot_rejects_wrong_signer
    [where L = ?L and w = signer_world and env = env0 and snapshot = snapshot0 and V = ?V
       and cid = 84532 and this = service0 and d = "''0xd1''" and sg = ?sg and recovered = ?wrong]
    tr rec ne
  have fails: "snd (snd (signBalanceSnapshot ?L signer_world env0 snapshot0 ?V 84532 service0))
      = Inl (new_Error (''Signature verification failed! Recovered '' @ ?wrong
               @ '', expected '' @ NearContractService.agentAddress service0))"
    by blast
  have ok: "snd (snd (signBalanceSnapshot
          (libs_with (JArray (response 1)) ''0x20F2747BBC52453AC0774B5B2FE0E28DC6637F30'')
          signer_world env0 snapshot0 ?V 84532 service0))
       = Inr \<lparr>signature = ?sg, agentAddress = ''0x20f2747bbc52453ac0774b5b2fe0e28dc6637f30''\<rparr>"
    by (simp add: example_run toLowerCase_examples)
  from tr rec ne fails ok show ?thesis
    by (simp add: agent_service0)
qed

section \<open>The agent address is a constant\<close>

text \<open>
  Claim C2. Whatever the environment the service is constructed from, and in every
  state the service reaches by \<open>initialize\<close>, \<open>getAgentAddress\<close> and
  \<open>signBalanceSnapshot\<close> (with any libraries, world and environment), \<open>getAgentAddress\<close>
  returns the literal \<open>0x20f2747bbc52453ac0774b5b2fe0e28dc6637f30\<close> without any call, and
  \<open>signBalanceSnapshot\<close> compares the recovered signer with that literal: a response
  is returned only when they agree up to case, it carries the literal as its agent
  address, and a recovered signer that differs makes the call fail.
\<close>

theorem agent_address_is_fixed_constant:
  "(NearContractService_new created_from = Inr created \<longrightarrow>
      NearContractService.agentAddress created = ''0x20f2747bbc52453ac0774b5b2fe0e28dc6637f30'')
   \<and> (reachable this \<longrightarrow>
      getAgentAddress this = ([], this, Inr ''0x20f2747bbc52453ac0774b5b2fe0e28dc6637f30'')
      \<and> (snd (snd (signBalanceSnapshot L w env snapshot V cid this)) = Inr resp \<longrightarrow>
           MpcSignatureResponse.agentAddress resp = ''0x20f2747bbc52453ac0774b5b2fe0e28dc6637f30''
           \<and> (\<exists>d' recovered'.
                  Call_recoverAddress d' (signature resp)
                    \<in> set (fst (signBalanceSnapshot L w env snapshot V cid this))
                  \<and> recoverAddress L d' (signature resp) = Inr recovered'
                  \<and> toLowerCase recovered'
                      = toLowerCase ''0x20f2747bbc52453ac0774b5b2fe0e28dc6637f30''))
      \<and> (Call_recoverAddress d sg \<in> set (fst (signBalanceSnapshot L w env snapshot V cid this))
           \<and> recoverAddress L d sg = Inr recovered
           \<and> toLowerCase recovered \<noteq> toLowerCase ''0x20f2747bbc52453ac0774b5b2fe0e28dc6637f30''
          \<longrightarrow> isl (snd (snd (signBalanceSnapshot L w env snapshot V cid this)))))"
proof (intro conjI impI)
  assume "NearContractService_new created_from = Inr created"
  then show "NearContractService.agentAddress created = ''0x20f2747bbc52453ac0774b5b2fe0e28dc6637f30''"
    by (rule reachable_agentAddress [OF reachable.constructed])
next
  assume r: "reachable this"
  note a = reachable_agentAddress [OF r]
  note v = sign_verification
    [where L = L and w = w and env = env and snapshot = snapshot and V = V and cid = cid
       and this = this and d = d and sg = sg and recovered = recovered and resp = resp,
     unfolded a]
  show "getAgentAddress this = ([], this, Inr ''0x20f2747bbc52453ac0774b5b2fe0e28dc6637f30'')"
    by (simp add: getAgentAddress_unfold a)
  show "isl (snd (snd (signBalanceSnapshot L w env snapshot V cid this)))"
    if "Call_recoverAddress d sg \<in> set (fst (signBalanceSnapshot L w env snapshot V cid this))
           \<and> recoverAddress L d sg = Inr recovered
           \<and> toLowerCase recovered \<noteq> toLowerCase ''0x20f2747bbc52453ac0774b5b2fe0e28dc6637f30''"
    using that v by simp
  assume ok: "snd (snd (signBalanceSnapshot L w env snapshot V cid this)) = Inr resp"
  with v show "MpcSignatureResponse.agentAddress resp = ''0x20f2747bbc52453ac0774b5b2fe0e28dc6637f30''"
    by blast
  from ok v show "\<exists>d' recovered'.
                  Call_recoverAddress d' (signature resp)
                    \<in> set (fst (signBalanceSnapshot L w env snapshot V cid this))
                  \<and> recoverAddress L d' (signature resp) = Inr recovered'
                  \<and> toLowerCase recovered'
                      = toLowerCase ''0x20f2747bbc52453ac0774b5b2fe0e28dc6637f30''"
    by blast
qed

theorem agent_address_is_fixed_constant_witness:
  "NearContractService_new env0 = Inr service0
   \<and> NearContractService.agentAddress service0 = ''0x20f2747bbc52453ac0774b5b2fe0e28dc6637f30''
   \<and> NearContractService_new env1
       = Inr (service0\<lparr>nearContractId := ''another-contract.testnet'',
                       nearAccountId := ''someone-else.testnet''\<rparr>)
   \<and> NearContractService.agentAddress
         (service0\<lparr>nearContractId := ''another-contract.testnet'',
                   nearAccountId := ''someone-else.testnet''\<rparr>)
       = ''0x20f2747bbc52453ac0774b5b2fe0e28dc6637f30''
   \<and> reachable service0
   \<and> getAgentAddress service0 = ([], service0, Inr ''0x20f2747bbc52453ac0774b5b2fe0e28dc6637f30'')
   \<and> reachable service1
   \<and> getAgentAddress service1 = ([], service1, Inr ''0x20f2747bbc52453ac0774b5b2fe0e28dc6637f30'')
   \<and> snd (snd (signBalanceSnapshot
          (libs_with (JArray (response 1)) ''0x20F2747BBC52453AC0774B5B2FE0E28DC6637F30'')
          signer_world env1 snapshot0 ''0x773035EABdA16B5416B26E12156483C6B6F56451'' 84532 service1))
       = Inr \<lparr>signature = hexlify (replicate 32 17 @ replicate 32 34 @ [28]),
              agentAddress = ''0x20f2747bbc52453ac0774b5b2fe0e28dc6637f30''\<rparr>"
proof -
  let ?A = "''0x20F2747BBC52453AC0774B5B2FE0E28DC6637F30''"
  let ?V = "''0x773035EABdA16B5416B26E12156483C6B6F56451''"
  let ?L = "libs_with (JArray (response 1)) ?A"
  let ?other = "service0\<lparr>nearContractId := ''another-contract.testnet'',
                       nearAccountId := ''someone-else.testnet''\<rparr>"
  have n1: "NearContractService_new env1 = Inr ?other"
    by (simp add: NearContractService_new_def env1_def service0_def falsy_def)
  have r0: "reachable service0"
    by (rule reachable.constructed [OF new_service0])
  have "reachable (fst (snd (initialize ?L env0 service0)))"
    by (rule reachable.initialized [OF r0])
  then have r1: "reachable service1"
    by (simp add: initialize_service0)
  from agent_address_is_fixed_constant [where created_from = env0 and created = service0] new_service0
  have a0: "NearContractService.agentAddress service0 = ''0x20f2747bbc52453ac0774b5b2fe0e28dc6637f30''"
    by blast
  from agent_address_is_fixed_constant [where created_from = env1 and created = ?other] n1
  have a1: "NearContractService.agentAddress ?other = ''0x20f2747bbc52453ac0774b5b2fe0e28dc6637f30''"
    by blast
  from agent_address_is_fixed_constant [where this = service0] r0
  have g0: "getAgentAddress service0 = ([], service0, Inr ''0x20f2747bbc52453ac0774b5b2fe0e28dc6637f30'')"
    by blast
  from agent_address_is_fixed_constant [where this = service1] r1
  have g1: "getAgentAddress service1 = ([], service1, Inr ''0x20f2747bbc52453ac0774b5b2fe0e28dc6637f30'')"
    by blast
  have i: "isInitialized service1" by (simp add: service1_def)
  have len: "length (Buffer_from ?L (response 1)) = 65"
    by (simp add: Buffer_from_response)
  have sg: "signature65_of (Buffer_from ?L (response 1))
      = hexlify (replicate 32 17 @ replicate 32 34 @ [28])"
    by (simp add: signature65_of_eq [OF len]) (simp add: Buffer_from_response nth_append)
  have ok: "snd (snd (signBalanceSnapshot ?L signer_world env1 snapshot0 ?V 84532 service1))
       = Inr \<lparr>signature = hexlify (replicate 32 17 @ replicate 32 34 @ [28]),
              agentAddress = ''0x20f2747bbc52453ac0774b5b2fe0e28dc6637f30''\<rparr>"
    unfolding signBalanceSnapshot_initialized [OF i]
    by (simp add: example_stages len sg falsy_def Let_def toLowerCase_examples service1_def
        service0_def)
  from new_service0 a0 n1 a1 r0 g0 r1 g1 ok show ?thesis by simp
qed

section \<open>The signature that is returned\<close>

text \<open>
  Claim C3, amended. For every decoded response of the remote signer (the service
  initialized, the three NEAR calls answered, the return value parsed to an array):
  when the bytes of the array are not exactly 65, \<open>signBalanceSnapshot\<close> fails with
  \<open>Invalid signature length\<close> after the three NEAR calls, so before any recovery; when
  they are 65, the signature handed to the recovery, and returned if the call
  succeeds, is the first 32 bytes, the next 32 bytes and the byte
  \<open>(recoveryId + 27) mod 256\<close>, which is \<open>recoveryId + 27\<close> whenever the last byte of the
  response is at most 228.
\<close>

theorem signature_length_and_recovery_byte:
  assumes "initialize L env this = (t0, this1, Inr u0)"
    and "connect w (env_or env ''NEAR_RPC_URL'' ''https://rpc.testnet.near.org'') (keyStore this1) = Inr u1"
    and "account w (nearAccountId this1) = Inr u2"
    and "functionCall w (env_or env ''NEAR_RPC_URL'' ''https://rpc.testnet.near.org'')
           (nearAccountId this1) (keyStore this1) (call_options this1 snapshot V cid) = Inr (Some sv)"
    and "sv \<noteq> []"
    and "JSON_parse L (base64_utf8 L sv) = Inr (JArray elems)"
  shows "(let bytes = Buffer_from L elems;
              run = signBalanceSnapshot L w env snapshot V cid this
          in (length bytes \<noteq> 65 \<longrightarrow>
                run = ([Call_connect (env_or env ''NEAR_RPC_URL'' ''https://rpc.testnet.near.org''),
                        Call_account (nearAccountId this1),
                        Call_functionCall (call_options this1 snapshot V cid)],
                       this1,
                       Inl (new_Error (''Invalid signature length: '' @ number_toString (length bytes)
                              @ '', expected 65''))))
           \<and> (length bytes = 65 \<longrightarrow>
                (\<forall>d sg. Call_recoverAddress d sg \<in> set (fst run) \<longrightarrow>
                   sg = hexlify (take 32 bytes @ take 32 (drop 32 bytes) @ [bytes ! 64 + 27]))
                \<and> (\<forall>resp. snd (snd run) = Inr resp \<longrightarrow>
                     signature resp
                       = hexlify (take 32 bytes @ take 32 (drop 32 bytes) @ [bytes ! 64 + 27]))
                \<and> unat (bytes ! 64 + 27) = (unat (bytes ! 64) + 27) mod 256
                \<and> (unat (bytes ! 64) \<le> 228 \<longrightarrow>
                     unat (bytes ! 64 + 27) = unat (bytes ! 64) + 27)))"
proof -
  note i = sign_after_initialize [OF assms(1)]
  have f: "\<not> falsy (Some sv)" using assms(5) by (simp add: falsy_def)
  note u = signBalanceSnapshot_initialized
    [OF i(1), where L = L and w = w and env = env and snapshot = snapshot and V = V and cid = cid]
  have short: "signBalanceSnapshot L w env snapshot V cid this
      = ([Call_connect (env_or env ''NEAR_RPC_URL'' ''https://rpc.testnet.near.org''),
          Call_account (nearAccountId this1),
          Call_functionCall (call_options this1 snapshot V cid)],
         this1,
         Inl (new_Error (''Invalid signature length: '' @ number_toString (length (Buffer_from L elems))
                @ '', expected 65'')))"
    if "length (Buffer_from L elems) \<noteq> 65"
    unfolding i(2) u using assms(2-4,6) f that by (simp add: Let_def)
  have sig: "sg = hexlify (take 32 (Buffer_from L elems) @ take 32 (drop 32 (Buffer_from L elems))
        @ [Buffer_from L elems ! 64 + 27])"
    if "length (Buffer_from L elems) = 65"
      "Call_recoverAddress d sg \<in> set (fst (signBalanceSnapshot L w env snapshot V cid this))"
    for d sg
    using that(2) unfolding i(2) u using assms(2-4,6) f that(1)
    by (auto simp: Let_def signature65_of_eq split: sum.splits)
  have ret: "signature resp = hexlify (take 32 (Buffer_from L elems) @ take 32 (drop 32 (Buffer_from L elems))
        @ [Buffer_from L elems ! 64 + 27])"
    if "length (Buffer_from L elems) = 65"
      "snd (snd (signBalanceSnapshot L w env snapshot V cid this)) = Inr resp"
    for resp
    using that(2) unfolding i(2) u using assms(2-4,6) f that(1)
    by (auto simp: Let_def signature65_of_eq split: sum.splits if_splits)
  show ?thesis
    unfolding Let_def using short sig ret byte_plus_27 by blast
qed

theorem signature_length_and_recovery_byte_witness:
  "initialize (libs_with (JArray (response 1)) ''0x20F2747BBC52453AC0774B5B2FE0E28DC6637F30'') env0 service0
     = ([], service1, Inr ())
   \<and> connect signer_world (env_or env0 ''NEAR_RPC_URL'' ''https://rpc.testnet.near.org'')
         (keyStore service1) = Inr ()
   \<and> account signer_world (nearAccountId service1) = Inr ()
   \<and> functionCall signer_world (env_or env0 ''NEAR_RPC_URL'' ''https://rpc.testnet.near.org'')
         (nearAccountId service1) (keyStore service1)
         (call_options service1 snapshot0 ''0x773035EABdA16B5416B26E12156483C6B6F56451'' 84532)
       = Inr (Some ''WzE3LC4uLl0='')
   \<and> ''WzE3LC4uLl0='' \<noteq> []
   \<and> JSON_parse (libs_with (JArray (response 1)) ''0x20F2747BBC52453AC0774B5B2FE0E28DC6637F30'')
         (base64_utf8 (libs_with (JArray (response 1)) ''0x20F2747BBC52453AC0774B5B2FE0E28DC6637F30'')
            ''WzE3LC4uLl0='')
       = Inr (JArray (response 1))
   \<and> length (Buffer_from (libs_with (JArray (response 1)) ''0x20F2747BBC52453AC0774B5B2FE0E28DC6637F30'')
         (response 1)) = 65
   \<and> snd (snd (signBalanceSnapshot
          (libs_with (JArray (response 1)) ''0x20F2747BBC52453AC0774B5B2FE0E28DC6637F30'')
          signer_world env0 snapshot0 ''0x773035EABdA16B5416B26E12156483C6B6F56451'' 84532 service0))
       = Inr \<lparr>signature = hexlify (replicate 32 17 @ replicate 32 34 @ [28]),
              agentAddress = ''0x20f2747bbc52453ac0774b5b2fe0e28dc6637f30''\<rparr>
   \<and> unat ((1 :: byte) + 27) = unat (1 :: byte) + 27
   \<and> JSON_parse (libs_with (JArray [JNumber 1, JNumber 2]) ''0x20F2747BBC52453AC0774B5B2FE0E28DC6637F30'')
         (base64_utf8 (libs_with (JArray [JNumber 1, JNumber 2]) ''0x20F2747BBC52453AC0774B5B2FE0E28DC6637F30'')
            ''WzE3LC4uLl0='')
       = Inr (JArray [JNumber 1, JNumber 2])
   \<and> length (Buffer_from (libs_with (JArray [JNumber 1, JNumber 2]) ''0x20F2747BBC52453AC0774B5B2FE0E28DC6637F30'')
         [JNumber 1, JNumber 2]) \<noteq> 65
   \<and> signBalanceSnapshot
         (libs_with (JArray [JNumber 1, JNumber 2]) ''0x20F2747BBC52453AC0774B5B2FE0E28DC6637F30'')
         signer_world env0 snapshot0 ''0x773035EABdA16B5416B26E12156483C6B6F56451'' 84532 service0
       = ([Call_connect ''https://rpc.testnet.near.org'', Call_account ''oracle.testnet'',
           Call_functionCall
             (call_options service1 snapshot0 ''0x773035EABdA16B5416B26E12156483C6B6F56451'' 84532)],
          service1, Inl (new_Error ''Invalid signature length: 2, expected 65''))"
proof -
  let ?A = "''0x20F2747BBC52453AC0774B5B2FE0E28DC6637F30''"
  let ?V = "''0x773035EABdA16B5416B26E12156483C6B6F56451''"
  let ?L = "libs_with (JArray (response 1)) ?A"
  let ?L2 = "libs_with (JArray [JNumber 1, JNumber 2]) ?A"
  let ?url = "env_or env0 ''NEAR_RPC_URL'' ''https://rpc.testnet.near.org''"
  let ?opts = "call_options service1 snapshot0 ?V 84532"
  have h1: "initialize L env0 service0 = ([], service1, Inr ())" if "L = libs_with p r" for L p r
    using that by (simp add: initialize_service0)
  have h2: "connect signer_world ?url (keyStore service1) = Inr ()"
    and h3: "account signer_world (nearAccountId service1) = Inr ()"
    and h4: "functionCall signer_world ?url (nearAccountId service1) (keyStore service1) ?opts
        = Inr (Some ''WzE3LC4uLl0='')"
    and h5: "''WzE3LC4uLl0='' \<noteq> []"
    by (simp_all add: example_stages)
  have h6: "JSON_parse ?L (base64_utf8 ?L ''WzE3LC4uLl0='') = Inr (JArray (response 1))"
    and h6': "JSON_parse ?L2 (base64_utf8 ?L2 ''WzE3LC4uLl0='') = Inr (JArray [JNumber 1, JNumber 2])"
    by (simp_all add: example_stages)
  have len: "length (Buffer_from ?L (response 1)) = 65"
    by (simp add: Buffer_from_response)
  have len2: "length (Buffer_from ?L2 [JNumber 1, JNumber 2]) = 2"
    by (simp add: Buffer_from_def)
  have bytes: "Buffer_from ?L (response 1) = replicate 32 17 @ replicate 32 34 @ [1]"
    by (simp add: Buffer_from_response)
  have ok: "snd (snd (signBalanceSnapshot ?L signer_world env0 snapshot0 ?V 84532 service0))
       = Inr \<lparr>signature = hexlify (replicate 32 17 @ replicate 32 34 @ [28]),
              agentAddress = ''0x20f2747bbc52453ac0774b5b2fe0e28dc6637f30''\<rparr>"
    by (simp add: example_run toLowerCase_examples)
  note r = signature_length_and_recovery_byte
    [OF h1 [OF refl] h2 h3 h4 h5 h6, unfolded Let_def]
  note r2 = signature_length_and_recovery_byte
    [OF h1 [OF refl] h2 h3 h4 h5 h6', unfolded Let_def]
  from r len have small: "unat (Buffer_from ?L (response 1) ! 64) \<le> 228 \<longrightarrow>
      unat (Buffer_from ?L (response 1) ! 64 + 27) = unat (Buffer_from ?L (response 1) ! 64) + 27"
    by blast
  have at64: "Buffer_from ?L (response 1) ! 64 = 1"
    by (simp add: bytes nth_append)
  from small have plus: "unat ((1 :: byte) + 27) = unat (1 :: byte) + 27"
    unfolding at64 by simp
  have two: "number_toString 2 = ''2''"
    by (simp add: number_toString_def dec_digits.simps digit_char_def)
  have url: "?url = ''https://rpc.testnet.near.org''"
    by (simp add: env_or_def env0_def falsy_def)
  have acct: "nearAccountId service1 = ''oracle.testnet''"
    by (simp add: service1_def service0_def)
  from r2 len2 have short: "signBalanceSnapshot ?L2 signer_world env0 snapshot0 ?V 84532 service0
      = ([Call_connect ?url, Call_account (nearAccountId service1), Call_functionCall ?opts],
         service1,
         Inl (new_Error (''Invalid signature length: ''
                @ number_toString (length (Buffer_from ?L2 [JNumber 1, JNumber 2])) @ '', expected 65'')))"
    by simp
  have short': "signBalanceSnapshot ?L2 signer_world env0 snapshot0 ?V 84532 service0
      = ([Call_connect ''https://rpc.testnet.near.org'', Call_account ''oracle.testnet'',
          Call_functionCall ?opts],
         service1, Inl (new_Error ''Invalid signature length: 2, expected 65''))"
    unfolding short len2 two url acct by simp
  from h1 [OF refl, of "JArray (response 1)" ?A] h2 h3 h4 h5 h6 len ok plus h6' len2 short'
  show ?thesis by simp
qed

text \<open>
  Claim C3 as stated fails above 228: for a response whose last byte is 229 and a
  recovery that yields the agent address, the returned signature ends with the byte 0,
  not with 229 + 27.
\<close>

theorem signature_last_byte_counterexample:
  "snd (snd (signBalanceSnapshot
       (libs_with (JArray (response 229)) ''0x20f2747bbc52453ac0774b5b2fe0e28dc6637f30'')
       signer_world env0 snapshot0 ''0x773035EABdA16B5416B26E12156483C6B6F56451'' 84532 service0))
     = Inr \<lparr>signature = hexlify (replicate 32 17 @ replicate 32 34 @ [0]),
            agentAddress = ''0x20f2747bbc52453ac0774b5b2fe0e28dc6637f30''\<rparr>
   \<and> length (Buffer_from (libs_with (JArray (response 229)) ''0x20f2747bbc52453ac0774b5b2fe0e28dc6637f30'')
         (response 229)) = 65
   \<and> last (Buffer_from (libs_with (JArray (response 229)) ''0x20f2747bbc52453ac0774b5b2fe0e28dc6637f30'')
         (response 229)) = 229
   \<and> unat (last (replicate 32 17 @ replicate 32 34 @ [0 :: byte])) \<noteq> unat (229 :: byte) + 27"
proof -
  have wrap: "(256 :: byte) = 0" by simp
  show ?thesis
    by (simp add: example_run toLowerCase_examples Buffer_from_response wrap)
qed

section \<open>The numbers sent to the remote signer\<close>

lemma bit_length_eval: "bit_length 9007199254740993 = 54"
  by (simp add: bit_length.simps)

lemma roundToDouble_eval: "roundToDouble 9007199254740993 = Some 9007199254740992"
  by (simp add: roundToDouble_def bit_length_eval Let_def)

lemma parseInt_eval: "parseInt ''9007199254740993'' = Num 9007199254740992"
  by (simp add: parseInt_def trimStart_def isStrWhiteSpaceChar_def is_radix_digit_def digit_of_def
      radix_value_def roundToDouble_eval Let_def)

text \<open>
  Claim C5 at the balance \<open>2^53 + 1\<close>: \<open>parseInt\<close> returns a double, so the \<open>balance\<close>
  in the argument object is \<open>9007199254740992\<close>, while the snapshot's string, which
  the local digest is computed from, is the integer \<open>9007199254740993\<close>.
\<close>

theorem build_args_rounds_large_balance:
  "SnapshotDigestArgs.balance
     (SignCallArgs.args
        (build_args (snapshot0\<lparr>CrossChainBalanceSnapshot.balance := ''9007199254740993''\<rparr>)
           ''0x773035EABdA16B5416B26E12156483C6B6F56451'' 84532))
     = Num 9007199254740992
   \<and> BigInt ''9007199254740993'' = Inr 9007199254740993"
  by (simp add: build_args_def parseInt_eval)
    (simp add: BigInt_def StringToBigInt_def trim_def trimStart_def isStrWhiteSpaceChar_def
      radix_digits_def radix_value_def is_radix_digit_def digit_of_def)

lemma trimStart_dec_digits: "trimStart (dec_digits n) = dec_digits n"
  by (simp add: trimStart_id dec_digits_ne digit_not_space hd_dec_digits)

lemma takeWhile_all: "list_all P xs \<Longrightarrow> takeWhile P xs = xs"
  by (induction xs) simp_all

lemma parseInt_exact:
  assumes "n < 2 ^ 53"
  shows "parseInt (dec_digits n) = Num (int n)"
proof -
  let ?s = "dec_digits n"
  have a: "list_all (is_radix_digit 10) ?s" by (rule all_digits_dec_digits)
  have h: "hd ?s \<noteq> CHR ''+''" "hd ?s \<noteq> CHR ''-''"
    using hd_dec_digits [of n] not_digit_chars by auto
  have p: "take 2 ?s \<noteq> [c, d]" if "\<not> is_radix_digit 10 d" for c d
    using take2_all_digits [OF a] that by blast
  have r: "roundToDouble n = Some n"
    using assms by (simp add: roundToDouble_def)
  show ?thesis
    by (simp add: parseInt_def trimStart_dec_digits dec_digits_ne h p not_digit_chars
        takeWhile_all [OF a] radix_value_dec_digits r Let_def)
qed

section \<open>The derived address\<close>

lemma slice_from_1: "slice_from 1 bs = tl bs"
  by (cases bs) (simp_all add: slice_from_def subarray_def clamp_index_def Let_def)

lemma slice_from_minus: "0 < n \<Longrightarrow> slice_from (- int n) bs = spec_last_bytes n bs"
proof -
  assume "0 < n"
  then have "clamp_index (length bs) (- int n) = length bs - n"
    by (auto simp: clamp_index_def)
  then have "slice_from (- int n) bs = drop (length bs - n) bs"
    by (simp add: slice_from_def subarray_def clamp_index_def Let_def)
  also have "\<dots> = spec_last_bytes n bs"
    by (simp add: spec_last_bytes_def rev_take)
  finally show ?thesis .
qed

lemma hex_digit_cases:
  "d < 16 \<Longrightarrow> d \<in> {0, 1, 2, 3, 4, 5, 6, 7, 8, 9, 10, 11, 12, 13, 14, 15::nat}"
  by simp arith

lemma digit_of_hex_digit_char: "d < 16 \<Longrightarrow> digit_of (digit_char d) = Some d"
  by (drule hex_digit_cases) (auto simp: digit_of_def digit_char_def)

lemma byte_of_nibbles: "of_nat (16 * (unat (b :: byte) div 16) + unat b mod 16) = b"
  by simp

lemma unat_byte_div: "unat (b :: byte) div 16 < 16"
  using unsigned_less [of b, where 'a = nat] by (simp add: less_mult_imp_div_less)

lemma hex_decode_toString_hex: "hex_decode (toString_hex bs) = Some bs"
  by (induction bs)
    (simp_all add: toString_hex_def hex_byte_def digit_of_hex_digit_char unat_byte_div
      byte_of_nibbles)

text \<open>
  Claim C4. For every root public key string that decodes to 64 raw bytes (the marker
  byte 4 is put before them) or to 33 bytes (the library decompresses them), every
  contract id and path, and any primitives: when the multiple of the generator by
  \<open>SHA3-256(prefix @ contractId @ '','' @ path)\<close> and its sum with the root point exist,
  the derived address is \<open>0x\<close> followed by the hex digits of the last 20 bytes of the
  Keccak-256 hash of the sum without its leading marker byte; the prefix is
  \<open>near-mpc-recovery v0.1.0 epsilon derivation:\<close>; the script's own constants give
  \<open>deriveAgentAddress\<close>; and the hex digits read back to exactly those 20 bytes.
\<close>

theorem deriveAgentAddress_formula:
  assumes "base_decode C rootPublicKey = Inr raw"
    and "(length raw = 64 \<and> rootPoint = 4 # raw)
         \<or> (length raw = 33 \<and> publicKeyConvert C raw = Inr rootPoint)"
    and "publicKeyCreate C
           (SHA3_256 C (''near-mpc-recovery v0.1.0 epsilon derivation:'' @ contract @ '','' @ path))
         = Inr epsilonG"
    and "publicKeyCombine C [rootPoint, epsilonG] = Inr derived"
  shows "deriveAgentAddress_for C contract path rootPublicKey
           = Inr (''0x'' @ toString_hex (spec_last_bytes 20 (keccak256 C (tl derived))))
         \<and> (contract = ''rebalancer-abcdefghij-57.testnet'' \<and> path = ''ethereum-1'' \<longrightarrow>
              deriveAgentAddress C rootPublicKey
                = Inr (''0x'' @ toString_hex (spec_last_bytes 20 (keccak256 C (tl derived)))))
         \<and> hex_decode (toString_hex (spec_last_bytes 20 (keccak256 C (tl derived))))
              = Some (spec_last_bytes 20 (keccak256 C (tl derived)))"
proof -
  have n: "(if length raw = 64 then Inr (4 # raw)
            else if length raw = 33 then publicKeyConvert C raw else Inr raw) = Inr rootPoint"
    using assms(2) by auto
  have m: "slice_from (- 20) bs = spec_last_bytes 20 bs" for bs :: "byte list"
    using slice_from_minus [of 20 bs] by simp
  have main: "deriveAgentAddress_for C contract path rootPublicKey
           = Inr (''0x'' @ toString_hex (spec_last_bytes 20 (keccak256 C (tl derived))))"
    using assms(3,4)
    by (simp add: deriveAgentAddress_for_def EPSILON_DERIVATION_PREFIX_def Let_def assms(1) n
        slice_from_1 m)
  then show ?thesis
    by (auto simp: deriveAgentAddress_def NEAR_CONTRACT_ID_def PATH_def hex_decode_toString_hex)
qed

theorem deriveAgentAddress_formula_witness:
  "base_decode toy_crypto ''raw'' = Inr (replicate 64 2)
   \<and> length (replicate 64 (2 :: byte)) = 64
   \<and> publicKeyCreate toy_crypto
         (SHA3_256 toy_crypto
            (''near-mpc-recovery v0.1.0 epsilon derivation:'' @ ''rebalancer-abcdefghij-57.testnet''
             @ '','' @ ''ethereum-1''))
       = Inr (4 # replicate 64 87)
   \<and> publicKeyCombine toy_crypto [4 # replicate 64 2, 4 # replicate 64 87]
       = Inr (4 # replicate 64 89)
   \<and> deriveAgentAddress toy_crypto ''raw'' = Inr (''0x'' @ toString_hex (replicate 20 89))
   \<and> base_decode toy_crypto ''compressed'' = Inr (replicate 33 2)
   \<and> publicKeyConvert toy_crypto (replicate 33 2) = Inr (4 # replicate 64 2)
   \<and> deriveAgentAddress_for toy_crypto ''rebalancer-abcdefghij-57.testnet'' ''ethereum-1''
         ''compressed'' = Inr (''0x'' @ toString_hex (replicate 20 89))
   \<and> hex_decode (toString_hex (replicate 20 89)) = Some (replicate 20 89)"
proof -
  let ?root = "4 # replicate 64 (2 :: byte)"
  let ?eps = "4 # replicate 64 (87 :: byte)"
  let ?sum = "4 # replicate 64 (89 :: byte)"
  have d1: "base_decode toy_crypto ''raw'' = Inr (replicate 64 2)"
    and d2: "base_decode toy_crypto ''compressed'' = Inr (replicate 33 2)"
    and cv: "publicKeyConvert toy_crypto (replicate 33 2) = Inr ?root"
    by (simp_all add: toy_crypto_def)
  have e: "publicKeyCreate toy_crypto
         (SHA3_256 toy_crypto
            (''near-mpc-recovery v0.1.0 epsilon derivation:'' @ ''rebalancer-abcdefghij-57.testnet''
             @ '','' @ ''ethereum-1''))
       = Inr ?eps"
    by (simp add: toy_crypto_def replicate_add [symmetric])
  have c: "publicKeyCombine toy_crypto [?root, ?eps] = Inr ?sum"
    by (simp add: toy_crypto_def)
  have k: "spec_last_bytes 20 (keccak256 toy_crypto (tl ?sum)) = replicate 20 89"
    by (simp add: toy_crypto_def spec_last_bytes_def)
  note r1 = deriveAgentAddress_formula
    [where C = toy_crypto and rootPublicKey = "''raw''" and raw = "replicate 64 2"
       and rootPoint = ?root and contract = "''rebalancer-abcdefghij-57.testnet''"
       and path = "''ethereum-1''" and epsilonG = ?eps and derived = ?sum, OF d1 _ e c]
  note r2 = deriveAgentAddress_formula
    [where C = toy_crypto and rootPublicKey = "''compressed''" and raw = "replicate 33 2"
       and rootPoint = ?root and contract = "''rebalancer-abcdefghij-57.testnet''"
       and path = "''ethereum-1''" and epsilonG = ?eps and derived = ?sum, OF d2 _ e c]
  from r1 have a1: "deriveAgentAddress toy_crypto ''raw''
      = Inr (''0x'' @ toString_hex (spec_last_bytes 20 (keccak256 toy_crypto (tl ?sum))))"
    by simp
  from r1 have h: "hex_decode (toString_hex (spec_last_bytes 20 (keccak256 toy_crypto (tl ?sum))))
      = Some (spec_last_bytes 20 (keccak256 toy_crypto (tl ?sum)))"
    by simp
  from r2 cv have a2: "deriveAgentAddress_for toy_crypto ''rebalancer-abcdefghij-57.testnet''
      ''ethereum-1'' ''compressed''
      = Inr (''0x'' @ toString_hex (spec_last_bytes 20 (keccak256 toy_crypto (tl ?sum))))"
    by simp
  from d1 e c a1 d2 cv a2 h show ?thesis
    unfolding k by simp
qed

end
